theory Spec2Isabelle
  imports Complex_Main "HOL-Library.Sublist" "HOL-Library.Log_Nat"
begin

section \<open>Data model\<close>

text \<open>
  The client (\<^verbatim>\<open>frontend/src/App.js\<close>) keeps its whole state in React state variables
  of the \<^verbatim>\<open>App\<close> component. JavaScript values are modelled as follows.
  \<^item> Strings are HOL strings; a character is read as one code unit in the range
    U+0000 .. U+00FF, and white space and lower-casing follow ECMAScript on that range.
  \<^item> A number is an IEEE double. A finite double is the rational it stands for
    (\<^typ>\<open>rat\<close>), or the integer (\<^typ>\<open>int\<close>) where the program only has whole numbers:
    identifiers, quantities and indices. Sums and products of prices and quantities are
    rounded to the nearest double, ties to even (section Numbers). The two zeros are not
    told apart.
  \<^item> A value that may be \<^verbatim>\<open>null\<close> is an \<^typ>\<open>'a option\<close>.
  \<^item> \<^verbatim>\<open>Math.random()\<close> is an extra argument of the function that calls it.
\<close>

text \<open>A number that may be \<^verbatim>\<open>NaN\<close> (the carousel index, the result of \<^verbatim>\<open>parseInt\<close>).\<close>

datatype number = Num int | NaN

text \<open>A row of \<^verbatim>\<open>products\<close> as the client receives it (\<^verbatim>\<open>backend/schema.sql\<close>).\<close>

record product =
  p_id :: int
  p_name :: string
  p_price :: rat
  p_category :: string
  p_description :: "string option"
  p_image_url :: "string option"
  p_image_url2 :: "string option"
  p_image_url3 :: "string option"
  p_stock :: int

text \<open>A cart entry, as \<^verbatim>\<open>addToCart\<close> builds it. \<^verbatim>\<open>item_id\<close> is the entry's
  \<^verbatim>\<open>id\<close>, a value of \<^verbatim>\<open>Math.random()\<close>.\<close>

record cart_item =
  item_id :: rat
  product_id :: int
  item_name :: string
  item_price :: rat
  item_image_url :: "string option"
  quantity :: int

text \<open>The order the service returns from \<^verbatim>\<open>POST /api/checkout\<close>.\<close>

record order =
  order_id :: int
  total_amount :: rat
  order_address :: string
  status :: string
  created_at :: string

text \<open>The body of the checkout request (\<^verbatim>\<open>checkoutData\<close> in \<^verbatim>\<open>handleCheckout\<close>).\<close>

record line_item =
  li_product_id :: int
  li_name :: string
  li_price :: rat
  li_quantity :: int

record checkout_data =
  shipping_address :: string
  cart_total :: "rat option"
  items :: "line_item list"

text \<open>The state variables of \<^verbatim>\<open>App\<close>. \<^verbatim>\<open>filteredProducts\<close> is recomputed by an
  effect from \<^verbatim>\<open>products\<close>, \<^verbatim>\<open>selectedCategory\<close> and \<^verbatim>\<open>searchTerm\<close> whenever one
  of them changes; it is the derived function \<open>filteredProducts\<close> below.\<close>

record app_state =
  products :: "product list"
  cart :: "cart_item list"
  showCart :: bool
  showCheckout :: bool
  selectedProduct :: "product option"
  searchTerm :: string
  selectedCategory :: string
  address :: string
  loading :: bool
  orders :: "order list"
  showOrders :: bool
  currentImageIndex :: number
  orderConfirmation :: "order option"

definition initial_state :: app_state where
  "initial_state =
     \<lparr> products = [], cart = [], showCart = False, showCheckout = False,
       selectedProduct = None, searchTerm = [], selectedCategory = ''All'',
       address = [], loading = True, orders = [], showOrders = False,
       currentImageIndex = Num 0, orderConfirmation = None \<rparr>"

section \<open>Numbers\<close>

text \<open>The double nearest to a whole number (of magnitude below \<open>2 ^ 1024\<close>): below
  \<open>2 ^ 53\<close> every whole number is a double; from there on a double is a multiple of the
  power of two that leaves 53 significant bits, and a tie goes to the even multiple.\<close>

definition round_double :: "int \<Rightarrow> int" where
  "round_double n =
     (let a = \<bar>n\<bar>; b = bitlen a
      in if b \<le> 53 then n
         else (let u = 2 ^ nat (b - 53); q = a div u; r = a mod u;
                   k = (if 2 * r < u \<or> (2 * r = u \<and> even q) then q else q + 1)
               in sgn n * (k * u)))"

text \<open>\<^verbatim>\<open>a + b\<close> and \<^verbatim>\<open>a - b\<close> on whole numbers that are doubles.\<close>

definition js_plus :: "int \<Rightarrow> int \<Rightarrow> int" where
  "js_plus a b = round_double (a + b)"

definition js_minus :: "int \<Rightarrow> int \<Rightarrow> int" where
  "js_minus a b = round_double (a - b)"

text \<open>The same rounding for a rational: \<open>binade a\<close> is the exponent \<open>e\<close> with
  \<open>2 ^ e \<le> a < 2 ^ (e + 1)\<close>, and the doubles of that size are the multiples of
  \<open>2 ^ (e - 52)\<close> (of \<open>2 ^ - 1074\<close> below \<open>2 ^ - 1022\<close>).\<close>

definition binade :: "rat \<Rightarrow> int" where
  "binade a = (if 1 \<le> a then bitlen \<lfloor>a\<rfloor> - 1 else - bitlen (\<lceil>1 / a\<rceil> - 1))"

definition nearest_even :: "rat \<Rightarrow> int" where
  "nearest_even m =
     (let f = \<lfloor>m\<rfloor>; d = m - of_int f
      in if d < 1 / 2 \<or> (d = 1 / 2 \<and> even f) then f else f + 1)"

definition round64 :: "rat \<Rightarrow> rat" where
  "round64 x =
     (if x = 0 then 0
      else (let a = \<bar>x\<bar>; u = 2 powi (max (binade a) (- 1022) - 52)
            in sgn x * (of_int (nearest_even (a / u)) * u)))"

text \<open>The result of an operation on doubles whose exact value is \<open>x\<close>. \<open>None\<close> stands for
  a value that is not finite (\<^verbatim>\<open>Infinity\<close>, and \<^verbatim>\<open>NaN\<close> that comes of it): it stays not
  finite in every sum, and \<^verbatim>\<open>JSON.stringify\<close> writes it as \<^verbatim>\<open>null\<close>.\<close>

definition to_double :: "rat \<Rightarrow> rat option" where
  "to_double x = (let y = round64 x in if \<bar>y\<bar> < of_int (2 ^ 1024) then Some y else None)"

definition times64 :: "rat \<Rightarrow> rat \<Rightarrow> rat option" where
  "times64 x y = to_double (x * y)"

definition plus64 :: "rat option \<Rightarrow> rat option \<Rightarrow> rat option" where
  "plus64 a b =
     (case a of None \<Rightarrow> None
      | Some x \<Rightarrow> (case b of None \<Rightarrow> None | Some y \<Rightarrow> to_double (x + y)))"

section \<open>Cart operations\<close>

text \<open>\<^verbatim>\<open>cart.find(item => item.product_id === product.id)\<close>; an entry is an object and
  so truthy, \<^verbatim>\<open>undefined\<close> is \<open>None\<close>.\<close>

definition existingItem :: "product \<Rightarrow> cart_item list \<Rightarrow> cart_item option" where
  "existingItem product c = find (\<lambda>item. product_id item = p_id product) c"

text \<open>\<^verbatim>\<open>addToCart\<close> (App.js 70-90); \<open>r\<close> is the value of \<^verbatim>\<open>Math.random()\<close>. The
  closing \<^verbatim>\<open>alert\<close> shows a message and changes no state variable.\<close>

definition addToCart :: "rat \<Rightarrow> product \<Rightarrow> app_state \<Rightarrow> app_state" where
  "addToCart r product s =
     (case existingItem product (cart s) of
        Some _ \<Rightarrow>
          s\<lparr>cart := map (\<lambda>item. if product_id item = p_id product
                                then item\<lparr>quantity := js_plus (quantity item) 1\<rparr>
                                else item) (cart s)\<rparr>
      | None \<Rightarrow>
          s\<lparr>cart := cart s @
                [\<lparr> item_id = r, product_id = p_id product, item_name = p_name product,
                   item_price = p_price product, item_image_url = p_image_url product,
                   quantity = 1 \<rparr>]\<rparr>)"

text \<open>\<^verbatim>\<open>buyNow\<close> (App.js 93-117): the source repeats the cart update and then sets four
  of the panel variables.\<close>

definition buyNow :: "rat \<Rightarrow> product \<Rightarrow> app_state \<Rightarrow> app_state" where
  "buyNow r product s =
     (let s1 =
        (case existingItem product (cart s) of
           Some _ \<Rightarrow>
             s\<lparr>cart := map (\<lambda>item. if product_id item = p_id product
                                   then item\<lparr>quantity := js_plus (quantity item) 1\<rparr>
                                   else item) (cart s)\<rparr>
         | None \<Rightarrow>
             s\<lparr>cart := cart s @
                   [\<lparr> item_id = r, product_id = p_id product, item_name = p_name product,
                      item_price = p_price product, item_image_url = p_image_url product,
                      quantity = 1 \<rparr>]\<rparr>)
      in s1\<lparr>showCart := False, showCheckout := True, showOrders := False,
            selectedProduct := None\<rparr>)"

text \<open>\<^verbatim>\<open>removeFromCart\<close> (App.js 120-122).\<close>

definition removeFromCart :: "rat \<Rightarrow> app_state \<Rightarrow> app_state" where
  "removeFromCart i s = s\<lparr>cart := filter (\<lambda>item. item_id item \<noteq> i) (cart s)\<rparr>"

text \<open>\<^verbatim>\<open>updateQuantity\<close> (App.js 125-133).\<close>

definition updateQuantity :: "rat \<Rightarrow> int \<Rightarrow> app_state \<Rightarrow> app_state" where
  "updateQuantity i q s =
     (if q \<le> 0 then removeFromCart i s
      else s\<lparr>cart := map (\<lambda>item. if item_id item = i then item\<lparr>quantity := q\<rparr> else item)
                         (cart s)\<rparr>)"

text \<open>\<^verbatim>\<open>cartTotal\<close> (App.js 136): a left fold from 0, each product and each sum
  rounded to a double.\<close>

definition cartTotal :: "cart_item list \<Rightarrow> rat option" where
  "cartTotal c =
     foldl (\<lambda>sum item. plus64 sum (times64 (item_price item) (of_int (quantity item))))
       (Some 0) c"



section \<open>Strings\<close>

text \<open>White space as \<^verbatim>\<open>String.prototype.trim\<close> and \<^verbatim>\<open>parseInt\<close> strip it: TAB, LF, VT,
  FF, CR, SPACE and NO-BREAK SPACE are the white space and line terminator code units
  below U+0100.\<close>

definition is_whitespace :: "char \<Rightarrow> bool" where
  "is_whitespace c \<longleftrightarrow> (of_char c :: nat) \<in> {9, 10, 11, 12, 13, 32, 160}"

definition trim :: "string \<Rightarrow> string" where
  "trim t = rev (dropWhile is_whitespace (rev (dropWhile is_whitespace t)))"

text \<open>\<^verbatim>\<open>toLowerCase\<close>: below U+0100 the upper-case letters are A-Z and U+00C0 .. U+00DE
  without the multiplication sign U+00D7; each maps to the code unit 32 above it, which
  sets the bit of value 32 (clear in all of them).\<close>

fun lower_char :: "char \<Rightarrow> char" where
  "lower_char (Char b0 b1 b2 b3 b4 b5 b6 b7) =
     (let n = (of_char (Char b0 b1 b2 b3 b4 b5 b6 b7) :: nat)
      in if (65 \<le> n \<and> n \<le> 90) \<or> (192 \<le> n \<and> n \<le> 222 \<and> n \<noteq> 215)
         then Char b0 b1 b2 b3 b4 True b6 b7
         else Char b0 b1 b2 b3 b4 b5 b6 b7)"

definition toLowerCase :: "string \<Rightarrow> string" where
  "toLowerCase t = map lower_char t"

text \<open>\<^verbatim>\<open>String.prototype.includes\<close>: the argument occurs at some position.\<close>

fun includes_str :: "string \<Rightarrow> string \<Rightarrow> bool" where
  "includes_str [] t = (t = [])"
| "includes_str (c # cs) t = (prefix t (c # cs) \<or> includes_str cs t)"

section \<open>Search and filter\<close>

text \<open>The effect of App.js 39-55. A non-empty string is truthy, so
  \<^verbatim>\<open>searchTerm.trim()\<close> holds when the trimmed term is not empty.\<close>

definition filteredProducts :: "app_state \<Rightarrow> product list" where
  "filteredProducts s =
     (let results = products s;
          results = (if selectedCategory s \<noteq> ''All''
                     then filter (\<lambda>p. p_category p = selectedCategory s) results
                     else results);
          results = (if trim (searchTerm s) \<noteq> []
                     then filter (\<lambda>p. includes_str (toLowerCase (p_name p))
                                                (toLowerCase (searchTerm s))) results
                     else results)
      in results)"

text \<open>\<^verbatim>\<open>categories\<close> (App.js 58): a \<^verbatim>\<open>Set\<close> keeps the first occurrence of each
  value.\<close>

definition categories :: "app_state \<Rightarrow> string list" where
  "categories s = ''All'' # rev (remdups (rev (map p_category (products s))))"

section \<open>Image carousel\<close>

text \<open>\<^verbatim>\<open>getProductImages\<close> (App.js 61-67): \<^verbatim>\<open>null\<close> and the empty string are
  falsy and are skipped.\<close>

definition push_if_truthy :: "string option \<Rightarrow> string list \<Rightarrow> string list" where
  "push_if_truthy u images =
     (case u of None \<Rightarrow> images | Some x \<Rightarrow> if x = [] then images else images @ [x])"

definition getProductImages :: "product \<Rightarrow> string list" where
  "getProductImages product =
     (let images = [];
          images = push_if_truthy (p_image_url product) images;
          images = push_if_truthy (p_image_url2 product) images;
          images = push_if_truthy (p_image_url3 product) images
      in images)"

text \<open>The arithmetic of the index updaters. \<^verbatim>\<open>%\<close> takes the sign of the dividend, and
  a zero divisor gives \<^verbatim>\<open>NaN\<close>.\<close>

fun js_add :: "number \<Rightarrow> int \<Rightarrow> number" where
  "js_add (Num a) b = Num (a + b)"
| "js_add NaN b = NaN"

fun js_rem :: "number \<Rightarrow> int \<Rightarrow> number" where
  "js_rem (Num a) b = (if b = 0 then NaN else Num (sgn a * (\<bar>a\<bar> mod \<bar>b\<bar>)))"
| "js_rem NaN b = NaN"

text \<open>\<^verbatim>\<open>nextImage\<close> and \<^verbatim>\<open>prevImage\<close> (App.js 190-203).\<close>

definition nextImage :: "app_state \<Rightarrow> app_state" where
  "nextImage s =
     (case selectedProduct s of
        None \<Rightarrow> s
      | Some p \<Rightarrow>
          (let images = getProductImages p
           in s\<lparr>currentImageIndex :=
                  js_rem (js_add (currentImageIndex s) 1) (int (length images))\<rparr>))"

definition prevImage :: "app_state \<Rightarrow> app_state" where
  "prevImage s =
     (case selectedProduct s of
        None \<Rightarrow> s
      | Some p \<Rightarrow>
          (let images = getProductImages p
           in s\<lparr>currentImageIndex :=
                  js_rem (js_add (js_add (currentImageIndex s) (- 1)) (int (length images)))
                         (int (length images))\<rparr>))"

section \<open>Panels\<close>

datatype panel = Catalog | ProductDetail | Cart | Checkout | Orders | Confirmation

text \<open>The chain of conditionals that picks what \<^verbatim>\<open>App\<close> renders (App.js 248-517),
  once \<^verbatim>\<open>loading\<close> is false.\<close>

definition currentPanel :: "app_state \<Rightarrow> panel" where
  "currentPanel s =
     (if orderConfirmation s \<noteq> None then Confirmation
      else if showOrders s then Orders
      else if selectedProduct s \<noteq> None then ProductDetail
      else if showCart s then Cart
      else if showCheckout s then Checkout
      else Catalog)"

text \<open>The header's handlers (App.js 206-228).\<close>

definition handleHomeClick :: "app_state \<Rightarrow> app_state" where
  "handleHomeClick s =
     s\<lparr>showOrders := False, showCart := False, showCheckout := False,
       selectedProduct := None, orderConfirmation := None\<rparr>"

definition handleOrdersClick :: "app_state \<Rightarrow> app_state" where
  "handleOrdersClick s =
     s\<lparr>showOrders := \<not> showOrders s, showCart := False, showCheckout := False,
       selectedProduct := None, orderConfirmation := None\<rparr>"

definition handleCartClick :: "app_state \<Rightarrow> app_state" where
  "handleCartClick s =
     s\<lparr>showCart := \<not> showCart s, showCheckout := False, showOrders := False,
       selectedProduct := None, orderConfirmation := None\<rparr>"

text \<open>The handlers written inline in the markup: Continue Shopping (App.js 276-282),
  Back on the detail page (312), an indicator of the carousel (331), Proceed to
  Checkout (413-416), the address field (433), Back on the checkout page (460), the
  search field (476), a category button (483) and a card's view-details (508-511).\<close>

definition continueShopping :: "app_state \<Rightarrow> app_state" where
  "continueShopping s =
     s\<lparr>orderConfirmation := None, showCart := False, showCheckout := False,
       showOrders := False, selectedProduct := None\<rparr>"

definition detailBack :: "app_state \<Rightarrow> app_state" where
  "detailBack s = s\<lparr>selectedProduct := None\<rparr>"

definition jumpToImage :: "nat \<Rightarrow> app_state \<Rightarrow> app_state" where
  "jumpToImage idx s = s\<lparr>currentImageIndex := Num (int idx)\<rparr>"

definition proceedToCheckout :: "app_state \<Rightarrow> app_state" where
  "proceedToCheckout s = s\<lparr>showCheckout := True, showCart := False\<rparr>"

definition setAddress :: "string \<Rightarrow> app_state \<Rightarrow> app_state" where
  "setAddress t s = s\<lparr>address := t\<rparr>"

definition checkoutBack :: "app_state \<Rightarrow> app_state" where
  "checkoutBack s = s\<lparr>showCheckout := False\<rparr>"

definition setSearchTerm :: "string \<Rightarrow> app_state \<Rightarrow> app_state" where
  "setSearchTerm t s = s\<lparr>searchTerm := t\<rparr>"

definition setSelectedCategory :: "string \<Rightarrow> app_state \<Rightarrow> app_state" where
  "setSelectedCategory cat s = s\<lparr>selectedCategory := cat\<rparr>"

definition viewDetails :: "product \<Rightarrow> app_state \<Rightarrow> app_state" where
  "viewDetails product s = s\<lparr>selectedProduct := Some product, currentImageIndex := Num 0\<rparr>"

text \<open>The two outcomes of the initial fetch of the catalogue (App.js 24-36).\<close>

definition productsLoaded :: "product list \<Rightarrow> app_state \<Rightarrow> app_state" where
  "productsLoaded data s = s\<lparr>products := data, loading := False\<rparr>"

definition productsFailed :: "app_state \<Rightarrow> app_state" where
  "productsFailed s = s\<lparr>loading := False\<rparr>"

section \<open>The quantity controls of a cart entry\<close>

text \<open>\<^verbatim>\<open>parseInt\<close> with no radix: leading white space is dropped, then an optional
  sign, then an optional \<^verbatim>\<open>0x\<close> or \<^verbatim>\<open>0X\<close> that selects radix 16; the digits that follow
  are read up to the first character that is not a digit of the radix, and no digit at
  all gives \<^verbatim>\<open>NaN\<close>; the result is the double nearest to the number read. (\<^verbatim>\<open>-0\<close> is
  \<open>Num 0\<close>: both zeros are falsy. The field is a number input, whose value is empty or
  the numeral of a finite double, so that the result is finite. ECMAScript lets an
  implementation read the decimal digits after the twentieth as 0; here every digit is
  read.)\<close>

definition digit_of :: "int \<Rightarrow> char \<Rightarrow> int option" where
  "digit_of radix c =
     (let n = (of_char c :: nat);
          v = (if 48 \<le> n \<and> n \<le> 57 then Some (int n - 48)
               else if 97 \<le> n \<and> n \<le> 122 then Some (int n - 87)
               else if 65 \<le> n \<and> n \<le> 90 then Some (int n - 55)
               else None)
      in case v of None \<Rightarrow> None | Some d \<Rightarrow> if d < radix then Some d else None)"

definition parseInt :: "string \<Rightarrow> number" where
  "parseInt t =
     (let s0 = dropWhile is_whitespace t;
          sign = (if s0 \<noteq> [] \<and> hd s0 = CHR ''-'' then - 1 else 1);
          s1 = (if s0 \<noteq> [] \<and> (hd s0 = CHR ''+'' \<or> hd s0 = CHR ''-'') then tl s0 else s0);
          hex = (take 2 s1 = ''0x'' \<or> take 2 s1 = ''0X'');
          radix = (if hex then 16 else 10);
          s2 = (if hex then drop 2 s1 else s1);
          z = takeWhile (\<lambda>c. digit_of radix c \<noteq> None) s2
      in if z = [] then NaN
         else Num (round_double
                     (sign * foldl (\<lambda>acc c. case digit_of radix c of
                                                None \<Rightarrow> acc
                                              | Some d \<Rightarrow> acc * radix + d) 0 z)))"

text \<open>\<^verbatim>\<open>x || 1\<close> on a number: \<^verbatim>\<open>NaN\<close> and 0 are falsy.\<close>

definition or_one :: "number \<Rightarrow> int" where
  "or_one x = (case x of NaN \<Rightarrow> 1 | Num k \<Rightarrow> if k = 0 then 1 else k)"

text \<open>The four controls of \<^verbatim>\<open>CartItem\<close> (CartItem.jsx 16, 22, 24 and 29), wired to
  \<^verbatim>\<open>updateQuantity\<close> and \<^verbatim>\<open>removeFromCart\<close> (App.js 391-392).\<close>

definition cartItem_minus :: "cart_item \<Rightarrow> app_state \<Rightarrow> app_state" where
  "cartItem_minus item s = updateQuantity (item_id item) (js_minus (quantity item) 1) s"

definition cartItem_change :: "cart_item \<Rightarrow> string \<Rightarrow> app_state \<Rightarrow> app_state" where
  "cartItem_change item text s = updateQuantity (item_id item) (or_one (parseInt text)) s"

definition cartItem_plus :: "cart_item \<Rightarrow> app_state \<Rightarrow> app_state" where
  "cartItem_plus item s = updateQuantity (item_id item) (js_plus (quantity item) 1) s"

definition cartItem_remove :: "cart_item \<Rightarrow> app_state \<Rightarrow> app_state" where
  "cartItem_remove item s = removeFromCart (item_id item) s"

section \<open>Checkout on the client\<close>

text \<open>\<^verbatim>\<open>handleCheckout\<close> (App.js 139-187) is an \<^verbatim>\<open>async\<close> function: it runs up to the
  \<^verbatim>\<open>await fetch\<close> when Place Order is pressed and resumes when the response arrives.
  The first half either returns after the alert (\<open>Inl\<close>, nothing is sent) or sends the
  request (\<open>Inr\<close>).\<close>

definition handleCheckout_request :: "app_state \<Rightarrow> string + checkout_data" where
  "handleCheckout_request s =
     (if trim (address s) = [] then Inl ''Please enter shipping address''
      else Inr \<lparr> shipping_address = address s,
                 cart_total = cartTotal (cart s),
                 items = map (\<lambda>item. \<lparr> li_product_id = product_id item,
                                         li_name = item_name item,
                                         li_price = item_price item,
                                         li_quantity = quantity item \<rparr>) (cart s) \<rparr>)"

text \<open>What comes back: a response with \<^verbatim>\<open>response.ok\<close> and the order as its body, a
  response that is not ok with an optional \<^verbatim>\<open>detail\<close>, or an exception of \<^verbatim>\<open>fetch\<close> or
  of \<^verbatim>\<open>response.json()\<close>, which the \<^verbatim>\<open>catch\<close> handles.\<close>

datatype response = Ok order | NotOk "string option" | Failed

text \<open>The second half (App.js 166-186). \<open>seen\<close> is the value of \<^verbatim>\<open>orders\<close> in the
  render whose handler sent the request: the function still holds that binding when it
  resumes. The two failure branches log and alert, and set no state variable.\<close>

definition handleCheckout_response :: "order list \<Rightarrow> response \<Rightarrow> app_state \<Rightarrow> app_state" where
  "handleCheckout_response seen resp s =
     (case resp of
        Ok ord \<Rightarrow>
          s\<lparr>orders := seen @ [ord], orderConfirmation := Some ord, cart := [],
            address := [], showCheckout := False, showCart := False\<rparr>
      | NotOk detail \<Rightarrow> s
      | Failed \<Rightarrow> s)"

section \<open>The order service\<close>

text \<open>The tables \<^verbatim>\<open>orders\<close> and \<^verbatim>\<open>order_items\<close> of \<^verbatim>\<open>backend/schema.sql\<close>; a row of
  \<^verbatim>\<open>orders\<close> has the fields of \<^typ>\<open>order\<close>.\<close>

record order_item_row =
  oi_id :: int
  oi_order_id :: int
  oi_product_id :: int
  oi_quantity :: int
  oi_price :: rat

record store =
  orders_tbl :: "order list"
  order_items_tbl :: "order_item_row list"

datatype service_error = ValidationError

text \<open>Modelled from the spec: an amount as a column of type \<^verbatim>\<open>DECIMAL(10,2)\<close> holds it
  (\<^verbatim>\<open>backend/schema.sql\<close>; section 8 of the specification has the total equal to the sum
  to the precision of the minor unit): the nearest multiple of one hundredth, a tie
  going away from zero. The column holds the amounts that are below \<open>10 ^ 8\<close> in
  magnitude once rounded (\<open>fits_decimal\<close>); what the store does with another amount is
  not modelled, and the properties of the total are stated for amounts that fit.\<close>

definition round_cents :: "rat \<Rightarrow> rat" where
  "round_cents x = sgn x * of_int \<lfloor>\<bar>x\<bar> * 100 + 1 / 2\<rfloor> / 100"


text \<open>Modelled from the spec: \<^verbatim>\<open>backend/main.py\<close>, which serves
  \<^verbatim>\<open>POST /api/checkout\<close>, is not among the sources. Section 4.1 of the specification:
  the operation signals a validation error if the address is empty or the items are
  empty; otherwise it recomputes the total as the sum of price times quantity over the
  submitted items, inserts one order with that total, the given address and the
  default status, inserts one order item per submitted item, and returns the order.
  The total and the prices are stored as the columns hold them. Identifiers are those
  of \<^verbatim>\<open>AUTO_INCREMENT\<close> on tables from which nothing is deleted; \<open>now\<close> is the time
  stamp.\<close>

definition checkout :: "string \<Rightarrow> checkout_data \<Rightarrow> store \<Rightarrow> (service_error + order) \<times> store" where
  "checkout now d db =
     (if shipping_address d = [] \<or> items d = [] then (Inl ValidationError, db)
      else
        (let total =
               round_cents (sum_list (map (\<lambda>i. li_price i * of_int (li_quantity i)) (items d)));
             ord = \<lparr> order_id = int (length (orders_tbl db)) + 1, total_amount = total,
                     order_address = shipping_address d, status = ''confirmed'',
                     created_at = now \<rparr>;
             base = int (length (order_items_tbl db));
             rows = map (\<lambda>(k, i). \<lparr> oi_id = base + int k + 1, oi_order_id = order_id ord,
                                     oi_product_id = li_product_id i,
                                     oi_quantity = li_quantity i,
                                     oi_price = round_cents (li_price i) \<rparr>)
                        (enumerate 0 (items d))
         in (Inr ord, db\<lparr>orders_tbl := orders_tbl db @ [ord],
                         order_items_tbl := order_items_tbl db @ rows\<rparr>)))"

text \<open>Modelled from the spec (section 6): the created order, or 4xx with an error
  detail.\<close>

definition reply :: "service_error + order \<Rightarrow> response" where
  "reply r = (case r of Inr ord \<Rightarrow> Ok ord | Inl e \<Rightarrow> NotOk (Some ''validation error''))"

text \<open>One checkout attempt with the service answering before anything else happens:
  the first half of \<^verbatim>\<open>handleCheckout\<close>, the service, the second half.\<close>

definition checkout_attempt :: "string \<Rightarrow> app_state \<Rightarrow> store \<Rightarrow> app_state \<times> store" where
  "checkout_attempt now s db =
     (case handleCheckout_request s of
        Inl msg \<Rightarrow> (s, db)
      | Inr d \<Rightarrow>
          (let (r, db') = checkout now d db
           in (handleCheckout_response (orders s) (reply r) s, db')))"

section \<open>The client as a transition system\<close>

text \<open>A configuration is the state of \<^verbatim>\<open>App\<close> together with the checkout requests that
  have been sent and not yet answered. Each of them is a suspended call of
  \<^verbatim>\<open>handleCheckout\<close>, which holds the \<^verbatim>\<open>orders\<close> it saw and the body it sent.\<close>

record pending =
  seen_orders :: "order list"
  sent :: checkout_data

record config =
  app :: app_state
  inflight :: "pending list"

definition initial_config :: config where
  "initial_config = \<lparr> app = initial_state, inflight = [] \<rparr>"

text \<open>An event is one run of a handler: a click or an edit on a control, or the arrival
  of a response. A control can be used only where \<^verbatim>\<open>App\<close> renders it. Entries of the
  cart and cards of the grid are named by their position in the list that is rendered;
  an event that adds to the cart carries the value of \<^verbatim>\<open>Math.random()\<close>.\<close>

datatype event =
    ProductsLoaded "product list" | ProductsFailed
  | HomeClick | OrdersClick | CartClick
  | ContinueShopping
  | Back | PrevImage | NextImage | Indicator nat | DetailAddToCart rat | BuyNow rat
  | Minus nat | ChangeQuantity nat string | Plus nat | Remove nat
  | ProceedToCheckout
  | TypeAddress string | PlaceOrder | CheckoutBack
  | TypeSearch string | PickCategory string | CardAddToCart nat rat | ViewDetails nat
  | CheckoutResponse nat response

text \<open>A control of panel \<open>p\<close> under condition \<open>shown\<close>, running handler \<open>h\<close>. While
  \<^verbatim>\<open>loading\<close> holds \<^verbatim>\<open>App\<close> renders the loading message only (App.js 230-232).\<close>

definition control :: "panel \<Rightarrow> (app_state \<Rightarrow> bool) \<Rightarrow> (app_state \<Rightarrow> app_state) \<Rightarrow> config \<Rightarrow> config option" where
  "control p shown h c =
     (if \<not> loading (app c) \<and> currentPanel (app c) = p \<and> shown (app c)
      then Some (c\<lparr>app := h (app c)\<rparr>) else None)"

text \<open>The header is rendered above every panel (App.js 237-243).\<close>

definition header :: "(app_state \<Rightarrow> app_state) \<Rightarrow> config \<Rightarrow> config option" where
  "header h c = (if \<not> loading (app c) then Some (c\<lparr>app := h (app c)\<rparr>) else None)"

text \<open>The carousel's buttons are rendered when the product has more than one image
  (App.js 322).\<close>

definition carousel_shown :: "app_state \<Rightarrow> bool" where
  "carousel_shown s =
     (case selectedProduct s of None \<Rightarrow> False | Some p \<Rightarrow> 1 < length (getProductImages p))"

text \<open>The buttons that add to the cart are disabled when the stock is 0 (App.js 363
  and 370, ProductCard.jsx 29). Nothing else is checked: \<^verbatim>\<open>Math.random()\<close> may return
  the \<^verbatim>\<open>id\<close> of an entry that is in the cart.\<close>

definition in_stock :: "product \<Rightarrow> bool" where
  "in_stock p \<longleftrightarrow> p_stock p \<noteq> 0"

fun fire :: "event \<Rightarrow> config \<Rightarrow> config option" where
  "fire (ProductsLoaded data) c =
     (if loading (app c) then Some (c\<lparr>app := productsLoaded data (app c)\<rparr>) else None)"
| "fire ProductsFailed c =
     (if loading (app c) then Some (c\<lparr>app := productsFailed (app c)\<rparr>) else None)"
| "fire HomeClick c = header handleHomeClick c"
| "fire OrdersClick c = header handleOrdersClick c"
| "fire CartClick c = header handleCartClick c"
| "fire ContinueShopping c = control Confirmation (\<lambda>s. True) continueShopping c"
| "fire Back c = control ProductDetail (\<lambda>s. True) detailBack c"
| "fire PrevImage c = control ProductDetail carousel_shown prevImage c"
| "fire NextImage c = control ProductDetail carousel_shown nextImage c"
| "fire (Indicator idx) c =
     control ProductDetail
       (\<lambda>s. carousel_shown s \<and>
            (case selectedProduct s of None \<Rightarrow> False
             | Some p \<Rightarrow> idx < length (getProductImages p)))
       (jumpToImage idx) c"
| "fire (DetailAddToCart r) c =
     (case selectedProduct (app c) of
        None \<Rightarrow> None
      | Some p \<Rightarrow> control ProductDetail (\<lambda>s. in_stock p) (addToCart r p) c)"
| "fire (BuyNow r) c =
     (case selectedProduct (app c) of
        None \<Rightarrow> None
      | Some p \<Rightarrow> control ProductDetail (\<lambda>s. in_stock p) (buyNow r p) c)"
| "fire (Minus k) c =
     control Cart (\<lambda>s. k < length (cart s)) (\<lambda>s. cartItem_minus (cart s ! k) s) c"
| "fire (ChangeQuantity k text) c =
     control Cart (\<lambda>s. k < length (cart s)) (\<lambda>s. cartItem_change (cart s ! k) text s) c"
| "fire (Plus k) c =
     control Cart (\<lambda>s. k < length (cart s)) (\<lambda>s. cartItem_plus (cart s ! k) s) c"
| "fire (Remove k) c =
     control Cart (\<lambda>s. k < length (cart s)) (\<lambda>s. cartItem_remove (cart s ! k) s) c"
| "fire ProceedToCheckout c = control Cart (\<lambda>s. cart s \<noteq> []) proceedToCheckout c"
| "fire (TypeAddress t) c = control Checkout (\<lambda>s. True) (setAddress t) c"
| "fire PlaceOrder c =
     (if \<not> loading (app c) \<and> currentPanel (app c) = Checkout
      then (case handleCheckout_request (app c) of
              Inl msg \<Rightarrow> Some c
            | Inr d \<Rightarrow>
                Some (c\<lparr>inflight := inflight c @
                                       [\<lparr> seen_orders = orders (app c), sent = d \<rparr>]\<rparr>))
      else None)"
| "fire CheckoutBack c = control Checkout (\<lambda>s. True) checkoutBack c"
| "fire (TypeSearch t) c = control Catalog (\<lambda>s. True) (setSearchTerm t) c"
| "fire (PickCategory cat) c =
     control Catalog (\<lambda>s. cat \<in> set (categories s)) (setSelectedCategory cat) c"
| "fire (CardAddToCart k r) c =
     control Catalog
       (\<lambda>s. k < length (filteredProducts s) \<and> in_stock (filteredProducts s ! k))
       (\<lambda>s. addToCart r (filteredProducts s ! k) s) c"
| "fire (ViewDetails k) c =
     control Catalog (\<lambda>s. k < length (filteredProducts s))
       (\<lambda>s. viewDetails (filteredProducts s ! k) s) c"
| "fire (CheckoutResponse k resp) c =
     (if k < length (inflight c)
      then Some \<lparr> app = handleCheckout_response (seen_orders (inflight c ! k)) resp (app c),
                  inflight = take k (inflight c) @ drop (Suc k) (inflight c) \<rparr>
      else None)"

fun run :: "event list \<Rightarrow> config \<Rightarrow> config option" where
  "run [] c = Some c"
| "run (e # es) c = (case fire e c of None \<Rightarrow> None | Some c' \<Rightarrow> run es c')"

inductive reachable :: "config \<Rightarrow> bool" where
  start: "reachable initial_config"
| step: "reachable c \<Longrightarrow> fire e c = Some c' \<Longrightarrow> reachable c'"

text \<open>The panel variables, and how many of them are set.\<close>

definition indicators :: "app_state \<Rightarrow> bool list" where
  "indicators s =
     [showCart s, showCheckout s, showOrders s, selectedProduct s \<noteq> None,
      orderConfirmation s \<noteq> None]"

definition active :: "app_state \<Rightarrow> nat" where
  "active s = length (filter (\<lambda>b. b) (indicators s))"

definition exclusive :: "app_state \<Rightarrow> bool" where
  "exclusive s \<longleftrightarrow> active s \<le> 1"

text \<open>How many are set of the four variables that \<^verbatim>\<open>buyNow\<close> sets together.\<close>

definition navigation :: "app_state \<Rightarrow> nat" where
  "navigation s =
     length (filter (\<lambda>b. b)
       [showCart s, showCheckout s, showOrders s, selectedProduct s \<noteq> None])"

fun is_response :: "event \<Rightarrow> bool" where
  "is_response (CheckoutResponse k resp) = True"
| "is_response _ = False"

text \<open>What holds of the panel variables in every reachable configuration.\<close>

definition panel_inv :: "config \<Rightarrow> bool" where
  "panel_inv c \<longleftrightarrow>
     navigation (app c) \<le> 1
     \<and> (orderConfirmation (app c) \<noteq> None \<longrightarrow> \<not> showCart (app c) \<and> \<not> showCheckout (app c))
     \<and> (loading (app c) \<longrightarrow> active (app c) = 0 \<and> inflight c = [])"

text \<open>What holds of the panel variables after event \<open>e\<close> has taken \<open>c\<close> to \<open>c'\<close>.\<close>

definition post :: "config \<Rightarrow> event \<Rightarrow> config \<Rightarrow> bool" where
  "post c e c' \<longleftrightarrow>
     panel_inv c'
     \<and> (\<not> is_response e \<longrightarrow> exclusive (app c'))
     \<and> (\<forall>k ord. e = CheckoutResponse k (Ok ord) \<longrightarrow>
           (exclusive (app c') \<longleftrightarrow> \<not> showOrders (app c) \<and> selectedProduct (app c) = None))"

text \<open>The panel variables and \<^verbatim>\<open>loading\<close> as one tuple, and the predicates above as
  predicates of the tuple.\<close>

type_synonym flag_tuple = "bool \<times> bool \<times> bool \<times> bool \<times> bool \<times> bool"

definition flags :: "app_state \<Rightarrow> flag_tuple" where
  "flags s = (showCart s, showCheckout s, showOrders s, selectedProduct s \<noteq> None,
              orderConfirmation s \<noteq> None, loading s)"

definition ok_flags :: "flag_tuple \<Rightarrow> bool" where
  "ok_flags f = (case f of (a, b, c, d, e, l) \<Rightarrow>
     \<not> (a \<and> b) \<and> \<not> (a \<and> c) \<and> \<not> (a \<and> d) \<and> \<not> (b \<and> c) \<and> \<not> (b \<and> d) \<and> \<not> (c \<and> d)
     \<and> \<not> (e \<and> a) \<and> \<not> (e \<and> b)
     \<and> (l \<longrightarrow> \<not> a \<and> \<not> b \<and> \<not> c \<and> \<not> d \<and> \<not> e))"

definition excl_flags :: "flag_tuple \<Rightarrow> bool" where
  "excl_flags f = (case f of (a, b, c, d, e, l) \<Rightarrow>
     \<not> (a \<and> b) \<and> \<not> (a \<and> c) \<and> \<not> (a \<and> d) \<and> \<not> (a \<and> e) \<and> \<not> (b \<and> c) \<and> \<not> (b \<and> d)
     \<and> \<not> (b \<and> e) \<and> \<not> (c \<and> d) \<and> \<not> (c \<and> e) \<and> \<not> (d \<and> e))"

definition panel_flags :: "flag_tuple \<Rightarrow> panel" where
  "panel_flags f = (case f of (a, b, c, d, e, l) \<Rightarrow>
     if e then Confirmation else if c then Orders else if d then ProductDetail
     else if a then Cart else if b then Checkout else Catalog)"

definition loading_flag :: "flag_tuple \<Rightarrow> bool" where
  "loading_flag f = (case f of (a, b, c, d, e, l) \<Rightarrow> l)"

text \<open>What holds of the cart in every reachable configuration.\<close>

definition cart_ok :: "cart_item list \<Rightarrow> bool" where
  "cart_ok xs \<longleftrightarrow> distinct (map product_id xs) \<and> (\<forall>item\<in>set xs. 1 \<le> quantity item)"

section \<open>Case-insensitive containment, as the specification words it\<close>

text \<open>The specification's search is a case-insensitive substring match on the name:
  at some position of the name stand as many characters as the term has, equal to the
  term's up to case.\<close>

definition same_ignoring_case :: "string \<Rightarrow> string \<Rightarrow> bool" where
  "same_ignoring_case a b \<longleftrightarrow> list_all2 (\<lambda>x y. lower_char x = lower_char y) a b"

definition contains_ignoring_case :: "string \<Rightarrow> string \<Rightarrow> bool" where
  "contains_ignoring_case name t \<longleftrightarrow>
     (\<exists>k\<in>{0..length name}. same_ignoring_case (take (length t) (drop k name)) t)"

section \<open>Example data\<close>

text \<open>The catalogue and the order of the specification's examples: one red shirt at
  499, bought twice and shipped to 221B Baker St.\<close>

definition red_shirt :: product where
  "red_shirt =
     \<lparr> p_id = 1, p_name = ''Red Shirt'', p_price = 499, p_category = ''Apparel'',
       p_description = None, p_image_url = Some ''shirt-1.jpg'',
       p_image_url2 = Some ''shirt-2.jpg'', p_image_url3 = Some ''shirt-3.jpg'',
       p_stock = 5 \<rparr>"

definition shirts :: "int \<Rightarrow> cart_item" where
  "shirts q =
     \<lparr> item_id = 1 / 2, product_id = 1, item_name = ''Red Shirt'', item_price = 499,
       item_image_url = Some ''shirt-1.jpg'', quantity = q \<rparr>"

definition mugs :: "int \<Rightarrow> cart_item" where
  "mugs q =
     \<lparr> item_id = 1 / 4, product_id = 2, item_name = ''Mug'', item_price = 5 / 2,
       item_image_url = None, quantity = q \<rparr>"

definition shop :: app_state where
  "shop = productsLoaded [red_shirt] initial_state"

definition basket :: app_state where
  "basket = shop\<lparr>cart := [shirts 2, mugs 1]\<rparr>"

definition shirt_page :: app_state where
  "shirt_page = viewDetails red_shirt shop"

definition baker_data :: checkout_data where
  "baker_data =
     \<lparr> shipping_address = ''221B Baker St'', cart_total = Some 998,
       items = [\<lparr> li_product_id = 1, li_name = ''Red Shirt'', li_price = 499,
                  li_quantity = 2 \<rparr>] \<rparr>"

definition baker_order :: order where
  "baker_order =
     \<lparr> order_id = 1, total_amount = 998, order_address = ''221B Baker St'',
       status = ''confirmed'', created_at = ''2026-01-01 10:00:00'' \<rparr>"

definition second_order :: order where
  "second_order =
     \<lparr> order_id = 2, total_amount = 998, order_address = ''221B Baker St'',
       status = ''confirmed'', created_at = ''2026-01-01 10:00:00'' \<rparr>"

definition empty_store :: store where
  "empty_store = \<lparr> orders_tbl = [], order_items_tbl = [] \<rparr>"

definition at_checkout :: app_state where
  "at_checkout = shop\<lparr>cart := [shirts 2], showCheckout := True, address := ''221B Baker St''\<rparr>"

text \<open>The catalogue loads; the shirt is added from its card, opened, and bought with
  Buy Now; the address is typed and Place Order is pressed.\<close>

definition to_checkout :: "event list" where
  "to_checkout =
     [ProductsLoaded [red_shirt], CardAddToCart 0 (1 / 2), ViewDetails 0, BuyNow (1 / 4),
      TypeAddress ''221B Baker St'', PlaceOrder]"

definition waiting :: config where
  "waiting = \<lparr> app = at_checkout, inflight = [\<lparr> seen_orders = [], sent = baker_data \<rparr>] \<rparr>"

text \<open>While the request is on its way the user opens the order history.\<close>

definition away :: config where
  "away = waiting\<lparr>app := handleOrdersClick at_checkout\<rparr>"

definition late :: config where
  "late = \<lparr> app = handleCheckout_response [] (Ok baker_order) (handleOrdersClick at_checkout),
             inflight = [] \<rparr>"

text \<open>Place Order is pressed a second time before the first response; then both
  responses arrive, each a success.\<close>

definition twice :: config where
  "twice = waiting\<lparr>inflight := [\<lparr> seen_orders = [], sent = baker_data \<rparr>,
                                  \<lparr> seen_orders = [], sent = baker_data \<rparr>]\<rparr>"

definition first_back :: config where
  "first_back =
     \<lparr> app = handleCheckout_response [] (Ok baker_order) at_checkout,
       inflight = [\<lparr> seen_orders = [], sent = baker_data \<rparr>] \<rparr>"

definition second_back :: config where
  "second_back =
     \<lparr> app = handleCheckout_response [] (Ok second_order) (app first_back), inflight = [] \<rparr>"

text \<open>A second product. Both products are added from their cards, \<^verbatim>\<open>Math.random()\<close>
  returns the same value both times, and the cart is opened: the two entries have one
  identifier.\<close>

definition mug :: product where
  "mug =
     \<lparr> p_id = 2, p_name = ''Mug'', p_price = 5 / 2, p_category = ''Kitchen'',
       p_description = None, p_image_url = None, p_image_url2 = None, p_image_url3 = None,
       p_stock = 3 \<rparr>"

definition same_id :: "event list" where
  "same_id =
     [ProductsLoaded [red_shirt, mug], CardAddToCart 0 (1 / 2), CardAddToCart 1 (1 / 2),
      CartClick]"

definition twins :: config where
  "twins =
     \<lparr> app = (productsLoaded [red_shirt, mug] initial_state)
               \<lparr>cart := [shirts 1, (mugs 1)\<lparr>item_id := 1 / 2\<rparr>], showCart := True\<rparr>,
       inflight = [] \<rparr>"

text \<open>The shirt is added from its card, the cart is opened, \<^verbatim>\<open>9007199254740992\<close>
  (\<open>2 ^ 53\<close>) is typed into the quantity field of the entry, and the catalogue is opened
  again.\<close>

definition to_big :: "event list" where
  "to_big =
     [ProductsLoaded [red_shirt], CardAddToCart 0 (1 / 2), CartClick,
      ChangeQuantity 0 ''9007199254740992'', HomeClick]"

definition big :: config where
  "big = \<lparr> app = shop\<lparr>cart := [shirts 9007199254740992]\<rparr>, inflight = [] \<rparr>"






section \<open>Properties of the numbers\<close>

text \<open>Whole numbers below \<open>2 ^ 53\<close> in magnitude are doubles, and adding 1 to one of them
  is exact; \<open>2 ^ 53 + 1\<close> is not a double.\<close>

lemma round_double_small: "\<bar>n\<bar> < 2 ^ 53 \<Longrightarrow> round_double n = n"
  by (simp add: round_double_def Let_def bitlen_le_iff_power)

lemma round_double_2_53: "round_double 9007199254740992 = 9007199254740992"
  by code_simp

lemma js_plus_one_exact: "\<bar>q\<bar> < 2 ^ 53 \<Longrightarrow> js_plus q 1 = q + 1"
proof -
  assume a: "\<bar>q\<bar> < 2 ^ 53"
  show ?thesis
  proof (cases "q + 1 = 2 ^ 53")
    case True
    then have "q + 1 = 9007199254740992" by simp
    then show ?thesis by (simp only: js_plus_def round_double_2_53)
  next
    case False
    with a have "\<bar>q + 1\<bar> < 2 ^ 53" by simp
    then show ?thesis by (simp add: js_plus_def round_double_small)
  qed
qed

lemma round_double_pos: "0 < n \<Longrightarrow> 0 < round_double n"
proof -
  assume n: "0 < n"
  show ?thesis
  proof (cases "bitlen n \<le> 53")
    case True
    with n show ?thesis by (simp add: round_double_def Let_def)
  next
    case False
    then have b: "53 < bitlen n" by simp
    have lo: "(2::int) ^ nat (bitlen n - 1) \<le> n"
      using bitlen_bounds [OF n] by simp
    have "nat (bitlen n - 53) \<le> nat (bitlen n - 1)" using b by simp
    then have "(2::int) ^ nat (bitlen n - 53) \<le> 2 ^ nat (bitlen n - 1)"
      by (rule power_increasing) simp
    with lo have "(2::int) ^ nat (bitlen n - 53) \<le> n" by linarith
    then have q: "0 < n div 2 ^ nat (bitlen n - 53)"
      by (simp add: pos_imp_zdiv_pos_iff)
    then have q1: "0 < n div 2 ^ nat (bitlen n - 53) + 1" by linarith
    from n False q q1 show ?thesis
      by (simp add: round_double_def Let_def zero_less_mult_iff)
  qed
qed

lemma js_plus_pos: "0 < q \<Longrightarrow> 0 < js_plus q 1"
  by (simp add: js_plus_def round_double_pos)

lemma js_minus_one_one: "js_minus 1 1 = 0"
  by (simp add: js_minus_def round_double_def)










section \<open>Properties of the cart\<close>

lemma existingItem_None:
  "existingItem p c = None \<longleftrightarrow> (\<forall>item\<in>set c. product_id item \<noteq> p_id p)"
  by (auto simp: existingItem_def find_None_iff)

lemma existingItem_Some:
  "(\<exists>x. existingItem p c = Some x) \<longleftrightarrow> (\<exists>item\<in>set c. product_id item = p_id p)"
  using existingItem_None [of p c] by (cases "existingItem p c") auto

lemma cart_addToCart_None:
  "existingItem p (cart s) = None \<Longrightarrow>
   cart (addToCart r p s) =
     cart s @ [\<lparr> item_id = r, product_id = p_id p, item_name = p_name p,
                 item_price = p_price p, item_image_url = p_image_url p, quantity = 1 \<rparr>]"
  by (simp add: addToCart_def)

lemma cart_addToCart_Some:
  "existingItem p (cart s) = Some x \<Longrightarrow>
   cart (addToCart r p s) =
     map (\<lambda>item. if product_id item = p_id p
                  then item\<lparr>quantity := js_plus (quantity item) 1\<rparr>
                  else item) (cart s)"
  by (simp add: addToCart_def)

lemmas example_defs =
  shop_def basket_def shirt_page_def at_checkout_def red_shirt_def shirts_def mugs_def
  productsLoaded_def viewDetails_def initial_state_def

text \<open>
  Claim C3, amended. For every product \<open>p\<close> and every cart: when some entry has the
  product identifier of \<open>p\<close>, \<^verbatim>\<open>addToCart(p)\<close> keeps the number of entries, leaves the
  entries of other products as they are, and gives each entry of \<open>p\<close> the quantity
  \<^verbatim>\<open>item.quantity + 1\<close>, which is the double nearest to the quantity plus 1: it is the
  quantity plus 1 when the quantity is below \<open>2 ^ 53\<close> in magnitude. When no entry has
  the identifier, \<^verbatim>\<open>addToCart(p)\<close> appends one entry with quantity 1. Two calls with the
  same product on a cart without it leave exactly one entry for it, with quantity 2.
\<close>

theorem addToCart_increments_below_2_53:
  "((\<exists>item\<in>set (cart s). product_id item = p_id p) \<longrightarrow>
      length (cart (addToCart r p s)) = length (cart s) \<and>
      (\<forall>k<length (cart s).
         cart (addToCart r p s) ! k =
           (if product_id (cart s ! k) = p_id p
            then (cart s ! k)\<lparr>quantity := js_plus (quantity (cart s ! k)) 1\<rparr>
            else cart s ! k)) \<and>
      (\<forall>k<length (cart s).
         product_id (cart s ! k) = p_id p \<and> \<bar>quantity (cart s ! k)\<bar> < 2 ^ 53 \<longrightarrow>
           cart (addToCart r p s) ! k
             = (cart s ! k)\<lparr>quantity := quantity (cart s ! k) + 1\<rparr>))
   \<and> ((\<forall>item\<in>set (cart s). product_id item \<noteq> p_id p) \<longrightarrow>
        cart (addToCart r p s) =
          cart s @ [\<lparr> item_id = r, product_id = p_id p, item_name = p_name p,
                      item_price = p_price p, item_image_url = p_image_url p,
                      quantity = 1 \<rparr>]
        \<and> cart (addToCart r' p (addToCart r p s)) =
          cart s @ [\<lparr> item_id = r, product_id = p_id p, item_name = p_name p,
                      item_price = p_price p, item_image_url = p_image_url p,
                      quantity = 2 \<rparr>]
        \<and> length (filter (\<lambda>item. product_id item = p_id p)
                    (cart (addToCart r' p (addToCart r p s)))) = 1)"
proof (intro conjI impI)
  assume "\<exists>item\<in>set (cart s). product_id item = p_id p"
  then obtain x where x: "existingItem p (cart s) = Some x"
    using existingItem_Some [of p "cart s"] by blast
  show "length (cart (addToCart r p s)) = length (cart s)"
    by (simp add: cart_addToCart_Some [OF x])
  show "\<forall>k<length (cart s).
         cart (addToCart r p s) ! k =
           (if product_id (cart s ! k) = p_id p
            then (cart s ! k)\<lparr>quantity := js_plus (quantity (cart s ! k)) 1\<rparr>
            else cart s ! k)"
    by (simp add: cart_addToCart_Some [OF x])
  show "\<forall>k<length (cart s).
         product_id (cart s ! k) = p_id p \<and> \<bar>quantity (cart s ! k)\<bar> < 2 ^ 53 \<longrightarrow>
           cart (addToCart r p s) ! k
             = (cart s ! k)\<lparr>quantity := quantity (cart s ! k) + 1\<rparr>"
    by (simp add: cart_addToCart_Some [OF x] js_plus_one_exact)
next
  assume no: "\<forall>item\<in>set (cart s). product_id item \<noteq> p_id p"
  then have n: "existingItem p (cart s) = None"
    by (simp add: existingItem_None)
  show one: "cart (addToCart r p s) =
          cart s @ [\<lparr> item_id = r, product_id = p_id p, item_name = p_name p,
                      item_price = p_price p, item_image_url = p_image_url p,
                      quantity = 1 \<rparr>]"
    by (rule cart_addToCart_None [OF n])
  have "\<exists>item\<in>set (cart (addToCart r p s)). product_id item = p_id p"
    by (simp add: one)
  then obtain x where x: "existingItem p (cart (addToCart r p s)) = Some x"
    using existingItem_Some [of p "cart (addToCart r p s)"] by blast
  have same: "map (\<lambda>item. if product_id item = p_id p
                           then item\<lparr>quantity := js_plus (quantity item) 1\<rparr> else item)
                (cart s)
              = cart s"
    using no by (simp add: map_idI)
  have two: "js_plus 1 1 = 2" using js_plus_one_exact [of 1] by simp
  show both: "cart (addToCart r' p (addToCart r p s)) =
          cart s @ [\<lparr> item_id = r, product_id = p_id p, item_name = p_name p,
                      item_price = p_price p, item_image_url = p_image_url p,
                      quantity = 2 \<rparr>]"
    by (simp add: cart_addToCart_Some [OF x] one same two)
  have "filter (\<lambda>item. product_id item = p_id p) (cart s) = []"
    using no by (simp add: filter_empty_conv)
  then show "length (filter (\<lambda>item. product_id item = p_id p)
                    (cart (addToCart r' p (addToCart r p s)))) = 1"
    by (simp add: both)
qed

theorem addToCart_increments_below_2_53_witness:
  "cart shop = []
   \<and> cart (addToCart (1 / 2) red_shirt shop) = [shirts 1]
   \<and> cart (addToCart (3 / 4) red_shirt (addToCart (1 / 2) red_shirt shop)) = [shirts 2]
   \<and> product_id (shirts 2) = p_id red_shirt
   \<and> \<bar>quantity (shirts 2)\<bar> < 2 ^ 53
   \<and> cart (addToCart (3 / 4) red_shirt basket) = [shirts 3, mugs 1]"
proof -
  have c: "cart shop = []" by (simp add: example_defs)
  have b: "cart basket = [shirts 2, mugs 1]" by (simp add: example_defs)
  have i: "product_id (shirts 2) = p_id red_shirt" "product_id (mugs 1) \<noteq> p_id red_shirt"
    "\<bar>quantity (shirts 2)\<bar> < 2 ^ 53"
    by (simp_all add: example_defs)
  note fresh = addToCart_increments_below_2_53 [of shop red_shirt "1 / 2" "3 / 4"]
  note again = addToCart_increments_below_2_53 [of basket red_shirt "3 / 4" 0]
  from fresh c have
    "cart (addToCart (1 / 2) red_shirt shop) = [shirts 1]"
    "cart (addToCart (3 / 4) red_shirt (addToCart (1 / 2) red_shirt shop)) = [shirts 2]"
    by (simp_all add: red_shirt_def shirts_def)
  moreover have "cart (addToCart (3 / 4) red_shirt basket) = [shirts 3, mugs 1]"
  proof -
    have ex: "\<exists>item\<in>set (cart basket). product_id item = p_id red_shirt"
      by (simp add: b i)
    from again ex have l: "length (cart (addToCart (3 / 4) red_shirt basket)) = length (cart basket)"
      by blast
    from again ex have other:
      "\<forall>k<length (cart basket).
         cart (addToCart (3 / 4) red_shirt basket) ! k =
           (if product_id (cart basket ! k) = p_id red_shirt
            then (cart basket ! k)\<lparr>quantity := js_plus (quantity (cart basket ! k)) 1\<rparr>
            else cart basket ! k)"
      by blast
    from again ex have exact:
      "\<forall>k<length (cart basket).
         product_id (cart basket ! k) = p_id red_shirt \<and> \<bar>quantity (cart basket ! k)\<bar> < 2 ^ 53 \<longrightarrow>
           cart (addToCart (3 / 4) red_shirt basket) ! k
             = (cart basket ! k)\<lparr>quantity := quantity (cart basket ! k) + 1\<rparr>"
      by blast
    from other [rule_format, of 1] i
    have m: "cart (addToCart (3 / 4) red_shirt basket) ! 1 = mugs 1"
      by (simp add: b)
    from exact [rule_format, of 0] i
    have s: "cart (addToCart (3 / 4) red_shirt basket) ! 0 = shirts 3"
      by (simp add: b shirts_def)
    from l m s show ?thesis
      by (simp add: b list_eq_iff_nth_eq less_Suc_eq)
  qed
  ultimately show ?thesis using c i by simp
qed

text \<open>The claim as worded fails at the quantity \<open>2 ^ 53\<close>, which the quantity field of
  the cart accepts: \<open>2 ^ 53 + 1\<close> is not a double, \<^verbatim>\<open>item.quantity + 1\<close> is \<open>2 ^ 53\<close>
  again, and \<^verbatim>\<open>addToCart\<close> leaves the entry as it is.\<close>

theorem addToCart_stuck_at_2_53:
  "run to_big initial_config = Some big
   \<and> cart (app big) = [shirts 9007199254740992]
   \<and> product_id (shirts 9007199254740992) = p_id red_shirt
   \<and> fire (CardAddToCart 0 (3 / 4)) big = Some big
   \<and> cart (addToCart (3 / 4) red_shirt (app big)) = [shirts 9007199254740992]
   \<and> quantity (cart (addToCart (3 / 4) red_shirt (app big)) ! 0)
       \<noteq> quantity (cart (app big) ! 0) + 1"
proof -
  have "run to_big initial_config = Some big" by code_simp
  moreover have "cart (app big) = [shirts 9007199254740992]" by code_simp
  moreover have "product_id (shirts 9007199254740992) = p_id red_shirt" by code_simp
  moreover have "fire (CardAddToCart 0 (3 / 4)) big = Some big" by code_simp
  moreover have "cart (addToCart (3 / 4) red_shirt (app big)) = [shirts 9007199254740992]"
    by code_simp
  moreover have "quantity (cart (addToCart (3 / 4) red_shirt (app big)) ! 0)
                   \<noteq> quantity (cart (app big) ! 0) + 1"
    by code_simp
  ultimately show ?thesis by simp
qed

lemma filter_only_nth:
  assumes "k < length xs" and "\<forall>j<length xs. j \<noteq> k \<longrightarrow> f (xs ! j) \<noteq> f (xs ! k)"
  shows "filter (\<lambda>x. f x \<noteq> f (xs ! k)) xs = take k xs @ drop (Suc k) xs"
proof -
  let ?P = "\<lambda>x. f x \<noteq> f (xs ! k)"
  have a: "\<forall>x\<in>set (take k xs). ?P x"
  proof
    fix x assume "x \<in> set (take k xs)"
    then obtain j where "j < length (take k xs)" "take k xs ! j = x"
      by (auto simp: in_set_conv_nth)
    with assms show "?P x" by auto
  qed
  have b: "\<forall>x\<in>set (drop (Suc k) xs). ?P x"
  proof
    fix x assume "x \<in> set (drop (Suc k) xs)"
    then obtain j where "j < length (drop (Suc k) xs)" "drop (Suc k) xs ! j = x"
      by (auto simp: in_set_conv_nth)
    then have "x = xs ! (Suc k + j)" "Suc k + j < length xs" by auto
    with assms(2) show "?P x" by auto
  qed
  have "filter ?P xs = filter ?P (take k xs @ xs ! k # drop (Suc k) xs)"
    using id_take_nth_drop [OF assms(1)] by simp
  also have "\<dots> = filter ?P (take k xs) @ filter ?P (drop (Suc k) xs)" by simp
  also have "\<dots> = take k xs @ drop (Suc k) xs"
    using a b by (simp add: filter_id_conv)
  finally show ?thesis .
qed

lemma map_only_nth:
  assumes "k < length xs" and "\<forall>j<length xs. j \<noteq> k \<longrightarrow> f (xs ! j) \<noteq> f (xs ! k)"
  shows "map (\<lambda>x. if f x = f (xs ! k) then g x else x) xs = xs[k := g (xs ! k)]"
  using assms by (auto simp: list_eq_iff_nth_eq nth_list_update)

text \<open>
  Claim C4, amended. Let \<open>k\<close> be the position of an entry of the cart, and let no other
  entry have the identifier of that entry. \<^verbatim>\<open>updateQuantity\<close> with that identifier and a
  quantity \<open>q \<le> 0\<close> removes exactly the entry at \<open>k\<close>, so the cart has one entry less; with
  \<open>q > 0\<close> it sets the quantity of the entry at \<open>k\<close> to \<open>q\<close>, whatever the stock, and the
  cart keeps its length.
\<close>

theorem updateQuantity_on_unique_id:
  assumes "k < length (cart s)"
    and "\<forall>j<length (cart s). j \<noteq> k \<longrightarrow> item_id (cart s ! j) \<noteq> item_id (cart s ! k)"
  shows "(q \<le> 0 \<longrightarrow>
            cart (updateQuantity (item_id (cart s ! k)) q s)
              = take k (cart s) @ drop (Suc k) (cart s)
            \<and> length (cart (updateQuantity (item_id (cart s ! k)) q s)) = length (cart s) - 1)
       \<and> (0 < q \<longrightarrow>
            cart (updateQuantity (item_id (cart s ! k)) q s)
              = (cart s)[k := (cart s ! k)\<lparr>quantity := q\<rparr>]
            \<and> length (cart (updateQuantity (item_id (cart s ! k)) q s)) = length (cart s))"
proof (intro conjI impI)
  assume q: "q \<le> 0"
  show r: "cart (updateQuantity (item_id (cart s ! k)) q s)
             = take k (cart s) @ drop (Suc k) (cart s)"
    using q filter_only_nth [OF assms]
    by (simp add: updateQuantity_def removeFromCart_def)
  show "length (cart (updateQuantity (item_id (cart s ! k)) q s)) = length (cart s) - 1"
    using assms(1) by (simp add: r)
next
  assume q: "0 < q"
  show r: "cart (updateQuantity (item_id (cart s ! k)) q s)
             = (cart s)[k := (cart s ! k)\<lparr>quantity := q\<rparr>]"
    using q map_only_nth [OF assms, of "\<lambda>item. item\<lparr>quantity := q\<rparr>"]
    by (simp add: updateQuantity_def)
  show "length (cart (updateQuantity (item_id (cart s ! k)) q s)) = length (cart s)"
    by (simp add: r)
qed

theorem updateQuantity_on_unique_id_witness:
  "map item_id (cart basket) = [1 / 2, 1 / 4]
   \<and> item_id (cart basket ! 0) = 1 / 2
   \<and> cart (updateQuantity (1 / 2) 0 basket) = [mugs 1]
   \<and> cart (updateQuantity (1 / 2) (- 3) basket) = [mugs 1]
   \<and> p_stock red_shirt = 5
   \<and> cart (updateQuantity (1 / 2) 9 basket) = [shirts 9, mugs 1]"
proof -
  have b: "cart basket = [shirts 2, mugs 1]" by (simp add: example_defs)
  have m: "map item_id (cart basket) = [1 / 2, 1 / 4]" by (simp add: example_defs)
  have k: "0 < length (cart basket)" by (simp add: b)
  have u: "\<forall>j<length (cart basket). j \<noteq> 0 \<longrightarrow>
             item_id (cart basket ! j) \<noteq> item_id (cart basket ! 0)"
    by (simp add: example_defs less_Suc_eq)
  have i: "item_id (cart basket ! 0) = 1 / 2" by (simp add: example_defs)
  from updateQuantity_on_unique_id [OF k u, of 0] updateQuantity_on_unique_id [OF k u, of "- 3"]
    updateQuantity_on_unique_id [OF k u, of 9] i b
  have "cart (updateQuantity (1 / 2) 0 basket) = [mugs 1]"
    "cart (updateQuantity (1 / 2) (- 3) basket) = [mugs 1]"
    "cart (updateQuantity (1 / 2) 9 basket) = [shirts 9, mugs 1]"
    by (simp_all add: shirts_def)
  with m i show ?thesis by (simp add: red_shirt_def)
qed

text \<open>The claim as worded, for every cart that has an entry with the identifier, fails
  when two entries have it: the identifier of an entry is a value of \<^verbatim>\<open>Math.random()\<close>,
  which may return a value again. Here two entries have the identifier \<open>1 / 2\<close>; a
  quantity of 0 for it removes both, the minus button on the first entry does so, and a
  quantity of 5 sets both quantities.\<close>

theorem updateQuantity_shared_id_changes_two:
  "run same_id initial_config = Some twins
   \<and> map item_id (cart (app twins)) = [1 / 2, 1 / 2]
   \<and> length (cart (app twins)) = 2
   \<and> cart (updateQuantity (1 / 2) 0 (app twins)) = []
   \<and> length (cart (updateQuantity (1 / 2) 0 (app twins))) \<noteq> length (cart (app twins)) - 1
   \<and> fire (Minus 0) twins = Some (twins\<lparr>app := (app twins)\<lparr>cart := []\<rparr>\<rparr>)
   \<and> map quantity (cart (updateQuantity (1 / 2) 5 (app twins))) = [5, 5]"
proof -
  have "run same_id initial_config = Some twins" by code_simp
  moreover have "map item_id (cart (app twins)) = [1 / 2, 1 / 2]" by code_simp
  moreover have "length (cart (app twins)) = 2" by code_simp
  moreover have "cart (updateQuantity (1 / 2) 0 (app twins)) = []" by code_simp
  moreover have "fire (Minus 0) twins = Some (twins\<lparr>app := (app twins)\<lparr>cart := []\<rparr>\<rparr>)"
    by code_simp
  moreover have "map quantity (cart (updateQuantity (1 / 2) 5 (app twins))) = [5, 5]"
    by code_simp
  ultimately show ?thesis by simp
qed

text \<open>
  Claim C9. For every product, every state and the same value of \<^verbatim>\<open>Math.random()\<close>,
  \<^verbatim>\<open>buyNow\<close> leaves the cart that \<^verbatim>\<open>addToCart\<close> leaves. \<^verbatim>\<open>addToCart\<close> changes the cart only
  and so stays on the current panel; the state after \<^verbatim>\<open>buyNow\<close> is the state after
  \<^verbatim>\<open>addToCart\<close> with the panel variables set for Checkout, and from the product detail
  page, where its button is, the panel shown after \<^verbatim>\<open>buyNow\<close> is Checkout. (The alert of
  \<^verbatim>\<open>addToCart\<close> is a message and no part of the state.)
\<close>

theorem buyNow_cart_as_addToCart:
  "cart (buyNow r p s) = cart (addToCart r p s)
   \<and> buyNow r p s = (addToCart r p s)\<lparr>showCart := False, showCheckout := True,
                                      showOrders := False, selectedProduct := None\<rparr>
   \<and> addToCart r p s = s\<lparr>cart := cart (addToCart r p s)\<rparr>
   \<and> currentPanel (addToCart r p s) = currentPanel s
   \<and> (currentPanel s = ProductDetail \<longrightarrow> currentPanel (buyNow r p s) = Checkout)"
  by (cases "existingItem p (cart s)")
     (simp_all add: buyNow_def addToCart_def currentPanel_def Let_def)

theorem buyNow_cart_as_addToCart_witness:
  "currentPanel shirt_page = ProductDetail
   \<and> currentPanel (addToCart (1 / 2) red_shirt shirt_page) = ProductDetail
   \<and> currentPanel (buyNow (1 / 2) red_shirt shirt_page) = Checkout
   \<and> cart (buyNow (1 / 2) red_shirt shirt_page) = [shirts 1]
   \<and> cart (addToCart (1 / 2) red_shirt shirt_page) = [shirts 1]"
proof -
  have d: "currentPanel shirt_page = ProductDetail"
    by (simp add: example_defs currentPanel_def)
  have c: "cart (addToCart (1 / 2) red_shirt shirt_page) = [shirts 1]"
    by (simp add: example_defs addToCart_def existingItem_def)
  note t = buyNow_cart_as_addToCart [of "1 / 2" red_shirt shirt_page]
  from t have e: "cart (buyNow (1 / 2) red_shirt shirt_page) = cart (addToCart (1 / 2) red_shirt shirt_page)"
    by (rule conjunct1)
  from t have a: "currentPanel (addToCart (1 / 2) red_shirt shirt_page) = currentPanel shirt_page"
    by blast
  from t d have b: "currentPanel (buyNow (1 / 2) red_shirt shirt_page) = Checkout"
    by blast
  from d c e a b show ?thesis by simp
qed

lemma ids_after_quantity:
  "item_id \<circ> (\<lambda>item. if P item then item\<lparr>quantity := f item\<rparr> else item) = item_id"
  "product_id \<circ> (\<lambda>item. if P item then item\<lparr>quantity := f item\<rparr> else item) = product_id"
  by (auto simp: fun_eq_iff)

text \<open>
  Claim C10. Editing the quantity field of a cart entry calls \<^verbatim>\<open>updateQuantity\<close> with
  \<^verbatim>\<open>parseInt\<close> of the text, or with 1 when that is 0 or \<^verbatim>\<open>NaN\<close>; the value passed is
  never 0. So typing \<^verbatim>\<open>0\<close> or clearing the field sets the quantity of the entry to 1
  and removes no entry. The minus button on an entry of quantity 1 and the remove button
  do remove; the plus button on an entry of positive quantity removes nothing.
\<close>

theorem typed_quantity_never_zero:
  "or_one (parseInt text) \<noteq> 0
   \<and> (parseInt text = Num 0 \<or> parseInt text = NaN \<longrightarrow>
        cartItem_change item text s = updateQuantity (item_id item) 1 s
        \<and> map item_id (cart (cartItem_change item text s)) = map item_id (cart s)
        \<and> (\<forall>k<length (cart s).
              cart (cartItem_change item text s) ! k =
                (if item_id (cart s ! k) = item_id item
                 then (cart s ! k)\<lparr>quantity := 1\<rparr> else cart s ! k)))
   \<and> (\<forall>n. parseInt text = Num n \<and> n \<noteq> 0 \<longrightarrow>
        cartItem_change item text s = updateQuantity (item_id item) n s)
   \<and> parseInt ''0'' = Num 0 \<and> parseInt [] = NaN
   \<and> (quantity item = 1 \<longrightarrow> cartItem_minus item s = removeFromCart (item_id item) s)
   \<and> cartItem_remove item s = removeFromCart (item_id item) s
   \<and> (0 < quantity item \<longrightarrow>
        map item_id (cart (cartItem_plus item s)) = map item_id (cart s))"
proof -
  have p0: "parseInt ''0'' = Num 0" by code_simp
  have pe: "parseInt [] = NaN" by code_simp
  have nz: "or_one (parseInt text) \<noteq> 0"
    by (simp add: or_one_def split: number.splits)
  have keep: "map item_id (cart (updateQuantity i q s)) = map item_id (cart s)"
    if "0 < q" for i q
    using that by (simp add: updateQuantity_def ids_after_quantity)
  have plus: "0 < quantity item \<longrightarrow>
        map item_id (cart (cartItem_plus item s)) = map item_id (cart s)"
    using keep [of "js_plus (quantity item) 1" "item_id item"]
    by (simp add: cartItem_plus_def js_plus_pos)
  have minus: "quantity item = 1 \<longrightarrow> cartItem_minus item s = removeFromCart (item_id item) s"
    by (simp add: cartItem_minus_def js_minus_one_one updateQuantity_def)
  show ?thesis
    using p0 pe nz keep [of 1 "item_id item"] plus minus
    by (auto simp: cartItem_change_def cartItem_remove_def or_one_def updateQuantity_def)
qed

theorem typed_quantity_never_zero_witness:
  "parseInt ''0'' = Num 0 \<and> parseInt [] = NaN
   \<and> cart (cartItem_change (shirts 2) ''0'' basket) = [shirts 1, mugs 1]
   \<and> cart (cartItem_change (shirts 2) [] basket) = [shirts 1, mugs 1]
   \<and> quantity (mugs 1) = 1
   \<and> cart (cartItem_minus (mugs 1) basket) = [shirts 2]
   \<and> 0 < quantity (shirts 2)
   \<and> map item_id (cart (cartItem_plus (shirts 2) basket)) = [1 / 2, 1 / 4]"
proof -
  note zero = typed_quantity_never_zero [of "''0''" "shirts 2" basket]
  note none = typed_quantity_never_zero [of "[]" "shirts 2" basket]
  note mug = typed_quantity_never_zero [of "[]" "mugs 1" basket]
  from zero have p: "parseInt ''0'' = Num 0" "parseInt [] = NaN" by blast+
  from zero p have z: "cartItem_change (shirts 2) ''0'' basket
                       = updateQuantity (item_id (shirts 2)) 1 basket" by blast
  from none p have n: "cartItem_change (shirts 2) [] basket
                       = updateQuantity (item_id (shirts 2)) 1 basket" by blast
  have q: "quantity (mugs 1) = 1" "0 < quantity (shirts 2)" by (simp_all add: example_defs)
  from mug q have m: "cartItem_minus (mugs 1) basket = removeFromCart (item_id (mugs 1)) basket"
    by blast
  from none q have "map item_id (cart (cartItem_plus (shirts 2) basket)) = map item_id (cart basket)"
    by blast
  then have pl: "map item_id (cart (cartItem_plus (shirts 2) basket)) = [1 / 2, 1 / 4]"
    by (simp add: example_defs)
  have "cart (updateQuantity (item_id (shirts 2)) 1 basket) = [shirts 1, mugs 1]"
    by (simp add: example_defs updateQuantity_def)
  moreover have "cart (removeFromCart (item_id (mugs 1)) basket) = [shirts 2]"
    by (simp add: example_defs removeFromCart_def)
  ultimately show ?thesis using p z n m q pl by simp
qed

text \<open>A negative number typed into the field is passed on as it is, and removes the
  entry.\<close>

lemma typed_negative_removes:
  "or_one (parseInt ''-1'') = - 1 \<and> cart (cartItem_change (shirts 2) ''-1'' basket) = [mugs 1]"
proof -
  have p: "parseInt ''-1'' = Num (- 1)" by code_simp
  show ?thesis
    by (simp add: p or_one_def cartItem_change_def updateQuantity_def removeFromCart_def
        example_defs)
qed

section \<open>Properties of the search\<close>

lemma includes_str_iff:
  "includes_str xs t \<longleftrightarrow> (\<exists>k\<in>{0..length xs}. prefix t (drop k xs))"
proof (induction xs)
  case Nil
  then show ?case by simp
next
  case (Cons x xs)
  have "(\<exists>k\<in>{0..length (x # xs)}. prefix t (drop k (x # xs))) \<longleftrightarrow>
        prefix t (x # xs) \<or> (\<exists>k\<in>{0..length xs}. prefix t (drop k xs))"
  proof
    assume "\<exists>k\<in>{0..length (x # xs)}. prefix t (drop k (x # xs))"
    then obtain k where k: "k \<le> length (x # xs)" "prefix t (drop k (x # xs))" by auto
    show "prefix t (x # xs) \<or> (\<exists>k\<in>{0..length xs}. prefix t (drop k xs))"
    proof (cases k)
      case 0
      with k show ?thesis by simp
    next
      case (Suc j)
      with k have "j \<le> length xs" "prefix t (drop j xs)" by auto
      then show ?thesis by auto
    qed
  next
    assume "prefix t (x # xs) \<or> (\<exists>k\<in>{0..length xs}. prefix t (drop k xs))"
    then show "\<exists>k\<in>{0..length (x # xs)}. prefix t (drop k (x # xs))"
    proof
      assume "prefix t (x # xs)"
      then have "prefix t (drop 0 (x # xs))" by simp
      then show ?thesis by (intro bexI [of _ 0]) auto
    next
      assume "\<exists>k\<in>{0..length xs}. prefix t (drop k xs)"
      then obtain k where "k \<le> length xs" "prefix t (drop k xs)" by auto
      then have "prefix t (drop (Suc k) (x # xs))" "Suc k \<in> {0..length (x # xs)}" by auto
      then show ?thesis by blast
    qed
  qed
  with Cons show ?case by simp
qed

lemma prefix_take_iff: "prefix a b \<longleftrightarrow> length a \<le> length b \<and> take (length a) b = a"
proof
  assume "prefix a b"
  then obtain c where "b = a @ c" by (auto simp: prefix_def)
  then show "length a \<le> length b \<and> take (length a) b = a" by simp
next
  assume h: "length a \<le> length b \<and> take (length a) b = a"
  have "b = take (length a) b @ drop (length a) b" by simp
  with h have "b = a @ drop (length a) b" by simp
  then show "prefix a b" by (rule prefixI)
qed

lemma list_all2_same_image:
  "list_all2 (\<lambda>x y. f x = f y) as bs \<longleftrightarrow> map f as = map f bs"
  by (auto simp: list_all2_conv_all_nth list_eq_iff_nth_eq)

lemma prefix_map_iff:
  "prefix (map f t) (map f ys) \<longleftrightarrow> list_all2 (\<lambda>x y. f x = f y) (take (length t) ys) t"
proof (cases "length t \<le> length ys")
  case True
  then show ?thesis
    by (auto simp: prefix_take_iff list_all2_same_image take_map)
next
  case False
  then have "length (take (length t) ys) \<noteq> length t" by simp
  then have "\<not> list_all2 (\<lambda>x y. f x = f y) (take (length t) ys) t"
    using list_all2_lengthD by blast
  with False show ?thesis by (simp add: prefix_take_iff)
qed

lemma includes_lower_iff:
  "includes_str (toLowerCase name) (toLowerCase t) \<longleftrightarrow> contains_ignoring_case name t"
  by (simp add: includes_str_iff toLowerCase_def contains_ignoring_case_def
      same_ignoring_case_def prefix_map_iff drop_map)

text \<open>
  Claim C5. For every catalogue, the filtered list is the catalogue filtered first by
  the selected category (all products when it is \<^verbatim>\<open>All\<close>) and then, when the search term
  is not blank, by the name containing the term up to case. So it is the full catalogue
  for \<^verbatim>\<open>All\<close> and a blank term; with a category chosen every product listed has that
  category, and with a blank term the list is exactly the products of that category;
  with a term that is not blank every product listed has a name that contains it up to
  case.
\<close>

theorem filteredProducts_by_category_then_name:
  "filteredProducts s =
     filter (\<lambda>p. trim (searchTerm s) = [] \<or> contains_ignoring_case (p_name p) (searchTerm s))
       (filter (\<lambda>p. selectedCategory s = ''All'' \<or> p_category p = selectedCategory s)
          (products s))
   \<and> (selectedCategory s = ''All'' \<and> trim (searchTerm s) = [] \<longrightarrow>
        filteredProducts s = products s)
   \<and> (selectedCategory s \<noteq> ''All'' \<longrightarrow>
        (\<forall>p\<in>set (filteredProducts s). p_category p = selectedCategory s))
   \<and> (selectedCategory s \<noteq> ''All'' \<and> trim (searchTerm s) = [] \<longrightarrow>
        filteredProducts s = filter (\<lambda>p. p_category p = selectedCategory s) (products s))
   \<and> (trim (searchTerm s) \<noteq> [] \<longrightarrow>
        (\<forall>p\<in>set (filteredProducts s). contains_ignoring_case (p_name p) (searchTerm s)))"
  by (simp add: filteredProducts_def Let_def includes_lower_iff)

theorem filteredProducts_by_category_then_name_witness:
  "selectedCategory shop = ''All'' \<and> trim (searchTerm shop) = []
   \<and> filteredProducts shop = [red_shirt]
   \<and> trim ''red'' \<noteq> []
   \<and> filteredProducts (shop\<lparr>searchTerm := ''red''\<rparr>) = [red_shirt]
   \<and> contains_ignoring_case (p_name red_shirt) ''red''
   \<and> filteredProducts (shop\<lparr>searchTerm := ''blue''\<rparr>) = []
   \<and> filteredProducts (shop\<lparr>selectedCategory := ''Electronics''\<rparr>) = []
   \<and> filteredProducts (shop\<lparr>selectedCategory := ''Apparel''\<rparr>) = [red_shirt]"
proof -
  have a: "selectedCategory shop = ''All''" "trim (searchTerm shop) = []"
    "products shop = [red_shirt]"
    by (simp_all add: example_defs trim_def)
  have t: "trim ''red'' \<noteq> []" by (simp add: trim_def is_whitespace_def)
  have r: "filteredProducts (shop\<lparr>searchTerm := ''red''\<rparr>) = [red_shirt]"
    by (simp add: filteredProducts_def example_defs trim_def is_whitespace_def toLowerCase_def)
  have b: "filteredProducts (shop\<lparr>searchTerm := ''blue''\<rparr>) = []"
    by (simp add: filteredProducts_def example_defs trim_def is_whitespace_def toLowerCase_def)
  have e: "filteredProducts (shop\<lparr>selectedCategory := ''Electronics''\<rparr>) = []"
    by (simp add: filteredProducts_def example_defs trim_def)
  have c: "filteredProducts (shop\<lparr>selectedCategory := ''Apparel''\<rparr>) = [red_shirt]"
    by (simp add: filteredProducts_def example_defs trim_def)
  from filteredProducts_by_category_then_name [of shop] a
  have f: "filteredProducts shop = [red_shirt]" by simp
  from filteredProducts_by_category_then_name [of "shop\<lparr>searchTerm := ''red''\<rparr>"] t r
  have "contains_ignoring_case (p_name red_shirt) ''red''" by simp
  with a t r b e c f show ?thesis by simp
qed

section \<open>Properties of the carousel\<close>

lemma js_rem_mod: "0 \<le> a \<Longrightarrow> 0 < b \<Longrightarrow> js_rem (Num a) b = Num (a mod b)"
  by (simp add: sgn_if)

text \<open>
  Claim C6. For a selected product with \<open>n \<ge> 1\<close> images and a current index \<open>i\<close> with
  \<open>0 \<le> i < n\<close>, \<^verbatim>\<open>nextImage\<close> moves the index to \<open>(i + 1) mod n\<close> and \<^verbatim>\<open>prevImage\<close> moves it
  to \<open>(i - 1 + n) mod n\<close>; \<^verbatim>\<open>prevImage\<close> after \<^verbatim>\<open>nextImage\<close> restores \<open>i\<close>. With three images,
  next from 2 gives 0 and prev from 0 gives 2.
\<close>

theorem carousel_wraps:
  assumes "selectedProduct s = Some p" and "n = int (length (getProductImages p))"
    and "1 \<le> n" and "currentImageIndex s = Num i" and "0 \<le> i" and "i < n"
  shows "currentImageIndex (nextImage s) = Num ((i + 1) mod n)
       \<and> currentImageIndex (prevImage s) = Num ((i - 1 + n) mod n)
       \<and> currentImageIndex (prevImage (nextImage s)) = Num i
       \<and> (n = 3 \<and> i = 2 \<longrightarrow> currentImageIndex (nextImage s) = Num 0)
       \<and> (n = 3 \<and> i = 0 \<longrightarrow> currentImageIndex (prevImage s) = Num 2)"
proof -
  have npos: "0 < n" using assms(3) by simp
  have nx': "currentImageIndex (nextImage s) = js_rem (Num (i + 1)) n"
    using assms(1,2,4) by (simp add: nextImage_def Let_def)
  have nx: "currentImageIndex (nextImage s) = Num ((i + 1) mod n)"
    using nx' js_rem_mod [of "i + 1" n] npos assms(5) by simp
  have pv': "currentImageIndex (prevImage s) = js_rem (Num (i - 1 + n)) n"
    using assms(1,2,4) by (simp add: prevImage_def Let_def)
  have pv: "currentImageIndex (prevImage s) = Num ((i - 1 + n) mod n)"
    using pv' js_rem_mod [of "i - 1 + n" n] npos assms(5) by simp
  have sel: "selectedProduct (nextImage s) = Some p"
    using assms(1) by (simp add: nextImage_def Let_def)
  have m0: "0 \<le> (i + 1) mod n" using npos by simp
  have ar: "((i + 1) mod n - 1 + n) mod n = i"
  proof -
    have "((i + 1) mod n - 1 + n) mod n = ((i + 1) mod n + (n - 1)) mod n"
      by (simp add: algebra_simps)
    also have "\<dots> = ((i + 1) + (n - 1)) mod n" by (simp add: mod_add_left_eq)
    also have "\<dots> = (i + n) mod n" by (simp add: algebra_simps)
    also have "\<dots> = i" using assms(5,6) by simp
    finally show ?thesis .
  qed
  have "currentImageIndex (prevImage (nextImage s)) = js_rem (Num ((i + 1) mod n - 1 + n)) n"
    using sel nx assms(2) by (simp add: prevImage_def Let_def)
  then have round: "currentImageIndex (prevImage (nextImage s)) = Num i"
    using js_rem_mod [of "(i + 1) mod n - 1 + n" n] npos m0 ar by simp
  from nx pv round show ?thesis by auto
qed

theorem carousel_wraps_witness:
  "selectedProduct shirt_page = Some red_shirt
   \<and> int (length (getProductImages red_shirt)) = 3
   \<and> currentImageIndex shirt_page = Num 0
   \<and> currentImageIndex (prevImage shirt_page) = Num 2
   \<and> currentImageIndex (nextImage shirt_page) = Num 1
   \<and> currentImageIndex (nextImage (jumpToImage 2 shirt_page)) = Num 0
   \<and> currentImageIndex (prevImage (nextImage (jumpToImage 2 shirt_page))) = Num 2"
proof -
  have s: "selectedProduct shirt_page = Some red_shirt" "currentImageIndex shirt_page = Num 0"
    "selectedProduct (jumpToImage 2 shirt_page) = Some red_shirt"
    "currentImageIndex (jumpToImage 2 shirt_page) = Num 2"
    by (simp_all add: example_defs jumpToImage_def)
  have n: "int (length (getProductImages red_shirt)) = 3"
    by (simp add: getProductImages_def push_if_truthy_def red_shirt_def)
  have first: "currentImageIndex (nextImage shirt_page) = Num 1"
    "currentImageIndex (prevImage shirt_page) = Num 2"
    using carousel_wraps [OF s(1) n [symmetric] _ s(2)] by simp_all
  have last: "currentImageIndex (nextImage (jumpToImage 2 shirt_page)) = Num 0"
    "currentImageIndex (prevImage (nextImage (jumpToImage 2 shirt_page))) = Num 2"
    using carousel_wraps [OF s(3) n [symmetric] _ s(4)] by simp_all
  from s n first last show ?thesis by simp
qed

section \<open>Properties of the checkout\<close>



lemma trim_Nil: "trim [] = []"
  by (simp add: trim_def)




text \<open>
  Claim C2. A checkout attempt with an empty or blank address is rejected by
  \<^verbatim>\<open>handleCheckout\<close> with the alert, and nothing is sent; an attempt with an empty cart, or
  any submission with an empty address or no items, is rejected by the service with a
  validation error. Neither creates a row of \<^verbatim>\<open>orders\<close> or \<^verbatim>\<open>order_items\<close>, and the state
  of the client is as before: a response that is not ok changes no state variable.
\<close>

theorem rejected_checkout_changes_nothing:
  "(trim (address s) = [] \<longrightarrow>
      handleCheckout_request s = Inl ''Please enter shipping address''
      \<and> checkout_attempt now s db = (s, db))
   \<and> (cart s = [] \<longrightarrow> checkout_attempt now s db = (s, db))
   \<and> (address s = [] \<longrightarrow> checkout_attempt now s db = (s, db))
   \<and> (shipping_address d = [] \<or> items d = [] \<longrightarrow>
        checkout now d db = (Inl ValidationError, db)
        \<and> reply (fst (checkout now d db)) = NotOk (Some ''validation error''))
   \<and> handleCheckout_response seen (NotOk msg) s = s
   \<and> (\<not> loading (app c) \<and> currentPanel (app c) = Checkout \<and> trim (address (app c)) = [] \<longrightarrow>
        fire PlaceOrder c = Some c)"
  by (auto simp: handleCheckout_request_def checkout_attempt_def checkout_def
      handleCheckout_response_def reply_def trim_Nil)

theorem rejected_checkout_changes_nothing_witness:
  "trim (address (basket\<lparr>address := ''   ''\<rparr>)) = []
   \<and> checkout_attempt ''2026-01-01 10:00:00'' (basket\<lparr>address := ''   ''\<rparr>) empty_store
       = (basket\<lparr>address := ''   ''\<rparr>, empty_store)
   \<and> cart (shop\<lparr>address := ''221B Baker St''\<rparr>) = []
   \<and> handleCheckout_request (shop\<lparr>address := ''221B Baker St''\<rparr>)
       = Inr \<lparr> shipping_address = ''221B Baker St'', cart_total = Some 0, items = [] \<rparr>
   \<and> checkout_attempt ''2026-01-01 10:00:00'' (shop\<lparr>address := ''221B Baker St''\<rparr>) empty_store
       = (shop\<lparr>address := ''221B Baker St''\<rparr>, empty_store)
   \<and> checkout ''2026-01-01 10:00:00''
        \<lparr> shipping_address = ''221B Baker St'', cart_total = Some 0, items = [] \<rparr> empty_store
       = (Inl ValidationError, empty_store)"
proof -
  have b: "trim (address (basket\<lparr>address := ''   ''\<rparr>)) = []"
    by (simp add: trim_def is_whitespace_def)
  have e: "cart (shop\<lparr>address := ''221B Baker St''\<rparr>) = []"
    by (simp add: example_defs)
  have r: "handleCheckout_request (shop\<lparr>address := ''221B Baker St''\<rparr>)
       = Inr \<lparr> shipping_address = ''221B Baker St'', cart_total = Some 0, items = [] \<rparr>"
    by (simp add: handleCheckout_request_def example_defs trim_def is_whitespace_def
        cartTotal_def)
  note blank = rejected_checkout_changes_nothing
    [of "basket\<lparr>address := ''   ''\<rparr>" "''2026-01-01 10:00:00''" empty_store]
  note none = rejected_checkout_changes_nothing
    [of "shop\<lparr>address := ''221B Baker St''\<rparr>" "''2026-01-01 10:00:00''" empty_store
        "\<lparr> shipping_address = ''221B Baker St'', cart_total = Some 0, items = [] \<rparr>"]
  from blank b have 1: "checkout_attempt ''2026-01-01 10:00:00'' (basket\<lparr>address := ''   ''\<rparr>)
       empty_store = (basket\<lparr>address := ''   ''\<rparr>, empty_store)" by blast
  from none e have 2: "checkout_attempt ''2026-01-01 10:00:00''
       (shop\<lparr>address := ''221B Baker St''\<rparr>) empty_store
       = (shop\<lparr>address := ''221B Baker St''\<rparr>, empty_store)" by blast
  from none have 3: "checkout ''2026-01-01 10:00:00''
        \<lparr> shipping_address = ''221B Baker St'', cart_total = Some 0, items = [] \<rparr> empty_store
       = (Inl ValidationError, empty_store)" by simp
  from b e r 1 2 3 show ?thesis by blast
qed

section \<open>Reachable configurations\<close>

lemma control_Some:
  "control p shown h c = Some c' \<longleftrightarrow>
     \<not> loading (app c) \<and> currentPanel (app c) = p \<and> shown (app c) \<and> c' = c\<lparr>app := h (app c)\<rparr>"
  by (auto simp: control_def)

lemma header_Some:
  "header h c = Some c' \<longleftrightarrow> \<not> loading (app c) \<and> c' = c\<lparr>app := h (app c)\<rparr>"
  by (auto simp: header_def)

lemma run_reachable_from: "reachable c \<Longrightarrow> run es c = Some c' \<Longrightarrow> reachable c'"
proof (induction es arbitrary: c)
  case Nil
  then show ?case by simp
next
  case (Cons e es)
  then show ?case by (auto split: option.splits intro: reachable.step)
qed

lemma run_reachable: "run es initial_config = Some c \<Longrightarrow> reachable c"
  by (rule run_reachable_from [OF reachable.start])

subsection \<open>The cart of a reachable configuration\<close>

lemma cart_other [simp]:
  "cart (handleHomeClick s) = cart s" "cart (handleOrdersClick s) = cart s"
  "cart (handleCartClick s) = cart s" "cart (continueShopping s) = cart s"
  "cart (detailBack s) = cart s" "cart (jumpToImage k s) = cart s"
  "cart (proceedToCheckout s) = cart s" "cart (setAddress t s) = cart s"
  "cart (checkoutBack s) = cart s" "cart (setSearchTerm t s) = cart s"
  "cart (setSelectedCategory t s) = cart s" "cart (viewDetails p s) = cart s"
  "cart (productsLoaded d s) = cart s" "cart (productsFailed s) = cart s"
  "cart (nextImage s) = cart s" "cart (prevImage s) = cart s"
  by (simp_all add: handleHomeClick_def handleOrdersClick_def handleCartClick_def
      continueShopping_def detailBack_def jumpToImage_def proceedToCheckout_def setAddress_def
      checkoutBack_def setSearchTerm_def setSelectedCategory_def viewDetails_def
      productsLoaded_def productsFailed_def nextImage_def prevImage_def Let_def
      split: option.splits)

lemma cart_buyNow: "cart (buyNow r p s) = cart (addToCart r p s)"
  by (simp add: buyNow_def addToCart_def Let_def split: option.splits)

lemma cart_ok_addToCart:
  assumes "cart_ok (cart s)"
  shows "cart_ok (cart (addToCart r p s))"
proof (cases "existingItem p (cart s)")
  case None
  then have "p_id p \<notin> product_id ` set (cart s)"
    by (auto simp: existingItem_None)
  with assms show ?thesis
    by (simp add: cart_addToCart_None [OF None] cart_ok_def)
next
  case (Some x)
  have "1 \<le> js_plus q 1" if "1 \<le> q" for q
    using js_plus_pos [of q] that by simp
  with assms show ?thesis
    by (auto simp: cart_addToCart_Some [OF Some] cart_ok_def ids_after_quantity)
qed

lemma cart_ok_removeFromCart:
  "cart_ok (cart s) \<Longrightarrow> cart_ok (cart (removeFromCart i s))"
  by (auto simp: removeFromCart_def cart_ok_def distinct_map_filter)

lemma cart_ok_updateQuantity:
  "cart_ok (cart s) \<Longrightarrow> cart_ok (cart (updateQuantity i q s))"
  by (auto simp: updateQuantity_def cart_ok_removeFromCart)
     (auto simp: cart_ok_def ids_after_quantity)

lemma cart_ok_cartItem:
  "cart_ok (cart s) \<Longrightarrow> cart_ok (cart (cartItem_minus item s))"
  "cart_ok (cart s) \<Longrightarrow> cart_ok (cart (cartItem_plus item s))"
  "cart_ok (cart s) \<Longrightarrow> cart_ok (cart (cartItem_change item t s))"
  "cart_ok (cart s) \<Longrightarrow> cart_ok (cart (cartItem_remove item s))"
  by (simp_all add: cartItem_minus_def cartItem_plus_def cartItem_change_def cartItem_remove_def
      cart_ok_updateQuantity cart_ok_removeFromCart)

lemma cart_ok_response:
  "cart_ok (cart s) \<Longrightarrow> cart_ok (cart (handleCheckout_response seen resp s))"
  by (cases resp) (simp_all add: handleCheckout_response_def cart_ok_def)

lemma fire_cart_ok:
  assumes "cart_ok (cart (app c))" and "fire e c = Some c'"
  shows "cart_ok (cart (app c'))"
  using assms
  by (cases e)
     (auto simp: control_Some header_Some cart_buyNow cart_ok_addToCart
        cart_ok_cartItem cart_ok_response split: if_splits option.splits sum.splits)

text \<open>The entries of a reachable cart have distinct products and quantities of at
  least 1.\<close>

lemma reachable_cart_ok: "reachable c \<Longrightarrow> cart_ok (cart (app c))"
proof (induction rule: reachable.induct)
  case start
  show ?case by (simp add: initial_config_def initial_state_def cart_ok_def)
next
  case (step c e c')
  then show ?case by (simp add: fire_cart_ok)
qed

subsection \<open>The panel variables of a reachable configuration\<close>

lemma flags_cart_update [simp]: "flags (s\<lparr>cart := x\<rparr>) = flags s"
  by (simp add: flags_def)

lemma flags_addToCart [simp]: "flags (addToCart r p s) = flags s"
  by (simp add: addToCart_def split: option.splits)

lemma flags_removeFromCart [simp]: "flags (removeFromCart i s) = flags s"
  by (simp add: removeFromCart_def)

lemma flags_updateQuantity [simp]: "flags (updateQuantity i q s) = flags s"
  by (simp add: updateQuantity_def)

lemma flags_cartItem [simp]:
  "flags (cartItem_minus item s) = flags s"
  "flags (cartItem_plus item s) = flags s"
  "flags (cartItem_change item t s) = flags s"
  "flags (cartItem_remove item s) = flags s"
  by (simp_all add: cartItem_minus_def cartItem_plus_def cartItem_change_def cartItem_remove_def)

lemma flags_images [simp]:
  "flags (nextImage s) = flags s" "flags (prevImage s) = flags s"
  "flags (jumpToImage k s) = flags s"
  by (simp_all add: nextImage_def prevImage_def jumpToImage_def flags_def Let_def
      split: option.splits)

lemma flags_fields [simp]:
  "flags (setAddress t s) = flags s" "flags (setSearchTerm t s) = flags s"
  "flags (setSelectedCategory t s) = flags s"
  by (simp_all add: setAddress_def setSearchTerm_def setSelectedCategory_def flags_def)

lemma flags_buyNow [simp]:
  "flags (buyNow r p s) = (False, True, False, False, orderConfirmation s \<noteq> None, loading s)"
  by (simp add: buyNow_def flags_def Let_def split: option.splits)

lemma flags_header [simp]:
  "flags (handleHomeClick s) = (False, False, False, False, False, loading s)"
  "flags (handleOrdersClick s) = (False, False, \<not> showOrders s, False, False, loading s)"
  "flags (handleCartClick s) = (\<not> showCart s, False, False, False, False, loading s)"
  "flags (continueShopping s) = (False, False, False, False, False, loading s)"
  by (simp_all add: handleHomeClick_def handleOrdersClick_def handleCartClick_def
      continueShopping_def flags_def)

lemma flags_inline [simp]:
  "flags (detailBack s) = (showCart s, showCheckout s, showOrders s, False,
                           orderConfirmation s \<noteq> None, loading s)"
  "flags (proceedToCheckout s) = (False, True, showOrders s, selectedProduct s \<noteq> None,
                           orderConfirmation s \<noteq> None, loading s)"
  "flags (checkoutBack s) = (showCart s, False, showOrders s, selectedProduct s \<noteq> None,
                           orderConfirmation s \<noteq> None, loading s)"
  "flags (viewDetails p s) = (showCart s, showCheckout s, showOrders s, True,
                           orderConfirmation s \<noteq> None, loading s)"
  "flags (productsLoaded d s) = (showCart s, showCheckout s, showOrders s,
                           selectedProduct s \<noteq> None, orderConfirmation s \<noteq> None, False)"
  "flags (productsFailed s) = (showCart s, showCheckout s, showOrders s,
                           selectedProduct s \<noteq> None, orderConfirmation s \<noteq> None, False)"
  by (simp_all add: detailBack_def proceedToCheckout_def checkoutBack_def viewDetails_def
      productsLoaded_def productsFailed_def flags_def)

lemma flags_response [simp]:
  "flags (handleCheckout_response seen (Ok ord) s) =
     (False, False, showOrders s, selectedProduct s \<noteq> None, True, loading s)"
  "flags (handleCheckout_response seen (NotOk d) s) = flags s"
  "flags (handleCheckout_response seen Failed s) = flags s"
  by (simp_all add: handleCheckout_response_def flags_def)

lemma at_most_one_of_four:
  "length (filter (\<lambda>b. b) [a, b, c, d]) \<le> 1 \<longleftrightarrow>
     \<not> (a \<and> b) \<and> \<not> (a \<and> c) \<and> \<not> (a \<and> d) \<and> \<not> (b \<and> c) \<and> \<not> (b \<and> d) \<and> \<not> (c \<and> d)"
  by auto

lemma at_most_one_of_five:
  "length (filter (\<lambda>b. b) [a, b, c, d, e]) \<le> 1 \<longleftrightarrow>
     \<not> (a \<and> b) \<and> \<not> (a \<and> c) \<and> \<not> (a \<and> d) \<and> \<not> (a \<and> e) \<and> \<not> (b \<and> c) \<and> \<not> (b \<and> d)
     \<and> \<not> (b \<and> e) \<and> \<not> (c \<and> d) \<and> \<not> (c \<and> e) \<and> \<not> (d \<and> e)"
  by auto

lemma none_of_five:
  "length (filter (\<lambda>b. b) [a, b, c, d, e]) = 0 \<longleftrightarrow> \<not> a \<and> \<not> b \<and> \<not> c \<and> \<not> d \<and> \<not> e"
  by auto

lemma exclusive_flags: "exclusive s \<longleftrightarrow> excl_flags (flags s)"
  unfolding exclusive_def active_def indicators_def excl_flags_def flags_def
  by (simp only: at_most_one_of_five prod.case)

lemma currentPanel_flags: "currentPanel s = panel_flags (flags s)"
  by (simp add: currentPanel_def panel_flags_def flags_def)

lemma loading_flags: "loading s = loading_flag (flags s)"
  by (simp add: loading_flag_def flags_def)

lemma panel_inv_flags:
  "panel_inv c \<longleftrightarrow>
     ok_flags (flags (app c)) \<and> (loading_flag (flags (app c)) \<longrightarrow> inflight c = [])"
  unfolding panel_inv_def navigation_def active_def indicators_def ok_flags_def flags_def
    loading_flag_def
  by (simp only: at_most_one_of_four none_of_five prod.case) blast

lemmas to_flags = post_def panel_inv_flags exclusive_flags currentPanel_flags loading_flags
  control_Some header_Some

lemmas of_flags = flags_def ok_flags_def excl_flags_def panel_flags_def loading_flag_def

text \<open>One event, from a configuration that satisfies the invariant.\<close>

lemma fire_post:
  assumes "panel_inv c" and "fire e c = Some c'"
  shows "post c e c'"
proof (cases e)
  case (CheckoutResponse k resp)
  with assms show ?thesis
    by (cases resp; auto simp: to_flags split: if_splits) (auto simp: of_flags)?
next
  case PlaceOrder
  with assms show ?thesis
    by (auto simp: to_flags split: if_splits sum.splits) (auto simp: of_flags split: if_splits)?
qed (use assms in \<open>(auto simp: to_flags split: if_splits option.splits)[1],
        ((auto simp: of_flags split: if_splits)[1])?\<close>)+

lemma reachable_panel_inv: "reachable c \<Longrightarrow> panel_inv c"
proof (induction rule: reachable.induct)
  case start
  show ?case
    by (simp add: panel_inv_def initial_config_def initial_state_def navigation_def
        active_def indicators_def)
next
  case (step c e c')
  from fire_post [OF step.IH step.hyps(2)] show ?case by (simp add: post_def)
qed

lemma fire_late: "fire (CheckoutResponse 0 (Ok baker_order)) away = Some late"
  by code_simp

lemma run_to_away: "run (to_checkout @ [OrdersClick]) initial_config = Some away"
  by code_simp

lemma reachable_away: "reachable away"
  by (rule run_reachable [OF run_to_away])

text \<open>
  What holds of the panel variables. From every reachable configuration, every event
  other than a checkout response (home, select product, cart toggle, orders toggle,
  proceed to checkout, buy now, continue shopping and the other controls) leaves at
  most one of \<^verbatim>\<open>showCart\<close>, \<^verbatim>\<open>showCheckout\<close>, \<^verbatim>\<open>showOrders\<close>, \<^verbatim>\<open>selectedProduct\<close> and
  \<^verbatim>\<open>orderConfirmation\<close> set. A checkout success leaves at most one of them set exactly
  when neither \<^verbatim>\<open>showOrders\<close> nor \<^verbatim>\<open>selectedProduct\<close> is set as it arrives. Every event
  leaves at most one of the first four set, and the panel shown is Catalog when none of
  the five is set.
\<close>

theorem panel_variables_after_event:
  assumes "reachable c" and "fire e c = Some c'"
  shows "navigation (app c') \<le> 1
       \<and> (\<not> is_response e \<longrightarrow> exclusive (app c'))
       \<and> (\<forall>k ord. e = CheckoutResponse k (Ok ord) \<longrightarrow>
             (exclusive (app c') \<longleftrightarrow> \<not> showOrders (app c) \<and> selectedProduct (app c) = None))
       \<and> (active (app c') = 0 \<longrightarrow> currentPanel (app c') = Catalog)"
proof -
  from fire_post [OF reachable_panel_inv [OF assms(1)] assms(2)]
  have p: "post c e c'" .
  have "active (app c') = 0 \<longrightarrow> currentPanel (app c') = Catalog"
    by (auto simp: active_def indicators_def currentPanel_def split: if_splits)
  with p show ?thesis by (simp add: post_def panel_inv_def)
qed

theorem panel_variables_after_event_witness:
  "reachable away
   \<and> fire HomeClick away = Some (away\<lparr>app := handleHomeClick (app away)\<rparr>)
   \<and> exclusive (handleHomeClick (app away))
   \<and> currentPanel (handleHomeClick (app away)) = Catalog
   \<and> fire (CheckoutResponse 0 (Ok baker_order)) away = Some late
   \<and> showOrders (app away)
   \<and> \<not> exclusive (app late)
   \<and> navigation (app late) \<le> 1"
proof -
  have h: "fire HomeClick away = Some (away\<lparr>app := handleHomeClick (app away)\<rparr>)"
    by code_simp
  have o: "showOrders (app away)" by code_simp
  have z: "active (handleHomeClick (app away)) = 0" by code_simp
  note home = panel_variables_after_event [OF reachable_away h]
  note resp = panel_variables_after_event [OF reachable_away fire_late]
  from home z have "exclusive (handleHomeClick (app away))"
    "currentPanel (handleHomeClick (app away)) = Catalog" by simp_all
  moreover from resp o have "\<not> exclusive (app late)" "navigation (app late) \<le> 1" by simp_all
  ultimately show ?thesis using reachable_away h fire_late o by simp
qed

text \<open>
  Claim C8. The panel variables are meant to be mutually exclusive: every transition
  should leave at most one of \<^verbatim>\<open>showCart\<close>, \<^verbatim>\<open>showCheckout\<close>, \<^verbatim>\<open>showOrders\<close>,
  \<^verbatim>\<open>selectedProduct\<close> and \<^verbatim>\<open>orderConfirmation\<close> set. The checkout success does not: here
  Place Order is pressed, the order history is opened while the request is on its way
  (a reachable configuration), and the response then sets \<^verbatim>\<open>orderConfirmation\<close> next to
  \<^verbatim>\<open>showOrders\<close>, so that two of the five are set. The Confirmation panel is shown,
  and the header's Orders button then leads to the Catalog, not to the order history.
\<close>

theorem late_checkout_success_sets_two:
  "run (to_checkout @ [OrdersClick]) initial_config = Some away
   \<and> reachable away
   \<and> fire (CheckoutResponse 0 (Ok baker_order)) away = Some late
   \<and> indicators (app late) = [False, False, True, False, True]
   \<and> active (app late) = 2
   \<and> \<not> exclusive (app late)
   \<and> currentPanel (app late) = Confirmation
   \<and> currentPanel (handleOrdersClick (app late)) = Catalog"
proof -
  have "indicators (app late) = [False, False, True, False, True]" by code_simp
  moreover have "active (app late) = 2" by code_simp
  moreover have "\<not> exclusive (app late)" by code_simp
  moreover have "currentPanel (app late) = Confirmation" by code_simp
  moreover have "currentPanel (handleOrdersClick (app late)) = Catalog" by code_simp
  ultimately show ?thesis using run_to_away reachable_away fire_late by simp
qed

text \<open>
  Claim C7. On a successful checkout response the client shows the Confirmation panel,
  the cart and the address become empty and the catalogue is as before; the order list
  becomes the list that the handler saw when Place Order was pressed, with the returned
  order appended. That is the order list in memory unless another checkout has
  succeeded in between: when Place Order is pressed twice before the first response,
  the first success gives the list of the first order, and the second success replaces
  it by the list of the second order alone.
\<close>

theorem checkout_success_appends_to_seen_orders:
  "currentPanel (handleCheckout_response seen (Ok ord) s) = Confirmation
   \<and> cart (handleCheckout_response seen (Ok ord) s) = []
   \<and> address (handleCheckout_response seen (Ok ord) s) = []
   \<and> products (handleCheckout_response seen (Ok ord) s) = products s
   \<and> orders (handleCheckout_response seen (Ok ord) s) = seen @ [ord]
   \<and> run (to_checkout @ [PlaceOrder]) initial_config = Some twice
   \<and> fire (CheckoutResponse 0 (Ok baker_order)) twice = Some first_back
   \<and> orders (app first_back) = [baker_order]
   \<and> fire (CheckoutResponse 0 (Ok second_order)) first_back = Some second_back
   \<and> orders (app second_back) = [second_order]
   \<and> orders (app second_back) \<noteq> orders (app first_back) @ [second_order]"
proof -
  have "run (to_checkout @ [PlaceOrder]) initial_config = Some twice" by code_simp
  moreover have "fire (CheckoutResponse 0 (Ok baker_order)) twice = Some first_back"
    by code_simp
  moreover have "orders (app first_back) = [baker_order]" by code_simp
  moreover have "fire (CheckoutResponse 0 (Ok second_order)) first_back = Some second_back"
    by code_simp
  moreover have "orders (app second_back) = [second_order]" by code_simp
  ultimately show ?thesis
    by (simp add: handleCheckout_response_def currentPanel_def)
qed

end
